theory Spec2Isabelle
  imports
    Main
    "HOL-Library.Sublist"
    "HOL-Library.Char_ord"
    "HOL-Library.List_Lexorder"
    "HOL-Library.Multiset"
begin

section \<open>Python strings\<close>

text \<open>
  A Python \<open>str\<close> is modelled as a \<open>string\<close>. ASCII text is represented character by
  character; the few non-ASCII characters that the program itself writes (the star marker,
  the bullet) are represented by their UTF-8 bytes. \<open>str.lower\<close> is modelled on the ASCII
  letters, every other character is left as it is. The test \<open>kw in text\<close> of two strings
  is \<^const>\<open>sublist\<close>: \<open>kw\<close> occurs in \<open>text\<close> as a contiguous block.
\<close>

definition lower_char :: "char \<Rightarrow> char" where
  "lower_char c =
     (let n = (of_char c :: nat) in if 65 \<le> n \<and> n \<le> 90 then char_of (n + 32) else c)"

definition lower :: "string \<Rightarrow> string" where
  "lower s = map lower_char s"

text \<open>\<open>any(kw in text for kw in kws)\<close>\<close>

definition any_kw_in :: "string list \<Rightarrow> string \<Rightarrow> bool" where
  "any_kw_in kws text = list_ex (\<lambda>kw. sublist kw text) kws"

section \<open>Categorizer\<close>

subsection \<open>\<open>categorize_announcement\<close> of scripts/scrape_announcements.py\<close>

definition categorize_announcement :: "string \<Rightarrow> string \<Rightarrow> string" where
  "categorize_announcement subject description =
     (let text = lower (subject @ '' '' @ description) in
      if any_kw_in [''board meeting'', ''meeting of board''] text then ''Board Meeting''
      else if any_kw_in [''financial result'', ''quarterly result'', ''annual result'',
                         ''q1'', ''q2'', ''q3'', ''q4''] text then ''Financial Results''
      else if any_kw_in [''dividend'', ''interim dividend'', ''final dividend''] text
        then ''Dividend''
      else if any_kw_in [''agm'', ''egm'', ''annual general'', ''extraordinary general''] text
        then ''AGM/EGM''
      else if any_kw_in [''acquisition'', ''acquire'', ''takeover''] text then ''Acquisition''
      else if any_kw_in [''investor presentation'', ''analyst meet'', ''investor meet''] text
        then ''Investor Presentation''
      else if any_kw_in [''fund raising'', ''qip'', ''preferential'', ''rights issue'',
                         ''fpo''] text then ''Fund Raising''
      else if any_kw_in [''merger'', ''demerger'', ''amalgamation'',
                         ''scheme of arrangement''] text then ''Merger/Demerger''
      else if any_kw_in [''director'', ''appointment'', ''resignation'', ''cessation''] text
        then ''Change in Directors''
      else if any_kw_in [''bonus'', ''split'', ''buyback'', ''corporate action''] text
        then ''Corporate Action''
      else if any_kw_in [''concall'', ''conference call'', ''earnings call'',
                         ''transcript''] text then ''Concall Transcript''
      else if any_kw_in [''order'', ''contract'', ''award'', ''mandate''] text
        then ''Order Win''
      else if any_kw_in [''expansion'', ''capacity'', ''capex'', ''new plant'',
                         ''new facility''] text then ''Expansion''
      else if any_kw_in [''rating'', ''credit rating'', ''upgrade'', ''downgrade''] text
        then ''Rating''
      else ''Others'')"

subsection \<open>\<open>categorize_announcement\<close> of scripts:scrape_announcements.py\<close>

text \<open>
  The second script has its own rule list: an \<open>Investment\<close> rule in sixth place, \<open>ipo\<close>
  among the fund-raising keywords, and the \<open>Investor Presentation\<close> rule after
  \<open>Corporate Action\<close>.
\<close>

definition categorize_announcement_ext :: "string \<Rightarrow> string \<Rightarrow> string" where
  "categorize_announcement_ext subject description =
     (let text = lower (subject @ '' '' @ description) in
      if any_kw_in [''board meeting'', ''meeting of board''] text then ''Board Meeting''
      else if any_kw_in [''financial result'', ''quarterly result'', ''annual result'',
                         ''q1'', ''q2'', ''q3'', ''q4''] text then ''Financial Results''
      else if any_kw_in [''dividend'', ''interim dividend'', ''final dividend''] text
        then ''Dividend''
      else if any_kw_in [''agm'', ''egm'', ''annual general'', ''extraordinary general''] text
        then ''AGM/EGM''
      else if any_kw_in [''acquisition'', ''acquire'', ''takeover''] text then ''Acquisition''
      else if any_kw_in [''investment'', ''invest'', ''stake''] text then ''Investment''
      else if any_kw_in [''fund raising'', ''qip'', ''preferential'', ''rights issue'',
                         ''fpo'', ''ipo''] text then ''Fund Raising''
      else if any_kw_in [''merger'', ''demerger'', ''amalgamation'',
                         ''scheme of arrangement''] text then ''Merger/Demerger''
      else if any_kw_in [''director'', ''appointment'', ''resignation'', ''cessation''] text
        then ''Change in Directors''
      else if any_kw_in [''bonus'', ''split'', ''buyback'', ''corporate action''] text
        then ''Corporate Action''
      else if any_kw_in [''investor presentation'', ''analyst meet'', ''investor meet''] text
        then ''Investor Presentation''
      else if any_kw_in [''concall'', ''conference call'', ''earnings call'',
                         ''transcript''] text then ''Concall Transcript''
      else if any_kw_in [''order'', ''contract'', ''award'', ''mandate''] text
        then ''Order Win''
      else if any_kw_in [''expansion'', ''capacity'', ''capex'', ''new plant'',
                         ''new facility''] text then ''Expansion''
      else if any_kw_in [''rating'', ''credit rating'', ''upgrade'', ''downgrade''] text
        then ''Rating''
      else ''Others'')"

subsection \<open>The rule list of the specification\<close>



section \<open>Sentiment scorer\<close>

definition POSITIVE_KEYWORDS :: "string list" where
  "POSITIVE_KEYWORDS =
     [''profit increase'', ''profit up'', ''revenue growth'', ''dividend'', ''bonus'',
      ''acquisition'', ''expansion'', ''new order'', ''contract win'', ''upgrade'',
      ''record'', ''highest ever'', ''beat estimates'', ''outperform'', ''growth'',
      ''investment'', ''capex'', ''expansion plan'', ''new plant'', ''capacity addition'']"

definition NEGATIVE_KEYWORDS :: "string list" where
  "NEGATIVE_KEYWORDS =
     [''profit decline'', ''profit down'', ''revenue decline'', ''loss'', ''downgrade'',
      ''resign'', ''exit'', ''closure'', ''default'', ''penalty'', ''fraud'',
      ''miss estimates'', ''underperform'', ''weak'', ''challenging'']"

text \<open>\<open>sum(1 for kw in kws if kw in text)\<close>: each keyword counts once.\<close>

definition keyword_hits :: "string list \<Rightarrow> string \<Rightarrow> nat" where
  "keyword_hits kws text = length (filter (\<lambda>kw. sublist kw text) kws)"

text \<open>
  The star marker. In scripts:scrape_announcements.py it is the character U+2605, here in
  UTF-8. In scripts/scrape_announcements.py the literal is stored as the three characters
  U+201A U+00F2 U+00D6; the Excel renderer of that file tests for the same stored literal.
\<close>

definition STAR_ext :: string where
  "STAR_ext = [CHR 0xE2, CHR 0x98, CHR 0x85]"

definition STAR :: string where
  "STAR = [CHR 0xE2, CHR 0x80, CHR 0x9A, CHR 0xC3, CHR 0xB2, CHR 0xC3, CHR 0x96]"

subsection \<open>\<open>assess_investment_implication\<close> of scripts/scrape_announcements.py\<close>

definition assess_investment_implication :: "string \<Rightarrow> string \<Rightarrow> string" where
  "assess_investment_implication text category =
     (let text_lower = lower text;
          positive_count = keyword_hits POSITIVE_KEYWORDS text_lower;
          negative_count = keyword_hits NEGATIVE_KEYWORDS text_lower;
          positive_count =
            (if category \<in> set [''Dividend'', ''Order Win'', ''Expansion'']
               then positive_count + 2
             else if category \<in> set [''Fund Raising''] then positive_count + 1
             else positive_count)
      in if positive_count > negative_count + 2 then STAR @ STAR @ STAR @ '' POSITIVE''
         else if positive_count > negative_count then STAR @ STAR @ '' MODERATE''
         else if negative_count > positive_count + 2 then STAR @ '' CAUTIOUS''
         else if negative_count > positive_count then STAR @ STAR @ '' WATCH''
         else STAR @ STAR @ '' NEUTRAL'')"

subsection \<open>\<open>assess_investment_implication\<close> of scripts:scrape_announcements.py\<close>

definition assess_investment_implication_ext :: "string \<Rightarrow> string \<Rightarrow> string" where
  "assess_investment_implication_ext text category =
     (let text_lower = lower text;
          positive_count = keyword_hits POSITIVE_KEYWORDS text_lower;
          negative_count = keyword_hits NEGATIVE_KEYWORDS text_lower;
          positive_count =
            (if category \<in> set [''Dividend'', ''Order Win'', ''Expansion'']
               then positive_count + 2
             else if category \<in> set [''Fund Raising''] then positive_count + 1
             else positive_count)
      in if positive_count > negative_count + 2
           then STAR_ext @ STAR_ext @ STAR_ext @ '' POSITIVE''
         else if positive_count > negative_count
           then STAR_ext @ STAR_ext @ '' MODERATE POSITIVE''
         else if negative_count > positive_count + 2 then STAR_ext @ '' CAUTIOUS''
         else if negative_count > positive_count then STAR_ext @ STAR_ext @ '' WATCH''
         else STAR_ext @ STAR_ext @ '' NEUTRAL'')"

text \<open>
  The category bonus as the specification words it: 2 for Dividend, Order Win and
  Expansion, 1 for Fund Raising, nothing otherwise.
\<close>

definition category_bonus :: "string \<Rightarrow> nat" where
  "category_bonus category =
     (if category = ''Dividend'' \<or> category = ''Order Win'' \<or> category = ''Expansion'' then 2
      else if category = ''Fund Raising'' then 1 else 0)"

section \<open>Raw records and the Python library\<close>

text \<open>
  A raw record is whatever the JSON response holds: the fetcher hands over the elements of
  the \<open>Table\<close> array as they are. Numbers are modelled as integers. A dict is the list
  of its items, each key once.
\<close>

datatype json =
    JNull
  | JBool bool
  | JInt int
  | JStr string
  | JArr "json list"
  | JObj "(string \<times> json) list"

text \<open>
  What the scripts call from the standard library is a parameter of the model, so that
  every theorem holds for the library as it is:
  \<^item> \<open>findall1 pattern text ignorecase\<close> is \<open>re.findall\<close> for a pattern with one group (the
    list of the group's matches), \<open>findall2 pattern text\<close> for a pattern with two groups;
  \<^item> \<open>repr v\<close> is \<open>str(v)\<close> for a value that is not a \<open>str\<close>;
  \<^item> \<open>fromisoformat s\<close> and \<open>strptime s format\<close> are the parsers of \<open>datetime\<close>, \<open>None\<close>
    when they raise; \<open>now\<close> is the clock's reading, \<open>strftime dt format\<close> the formatter.
\<close>

record 'dt pylib =
  findall1 :: "string \<Rightarrow> string \<Rightarrow> bool \<Rightarrow> string list"
  findall2 :: "string \<Rightarrow> string \<Rightarrow> (string \<times> string) list"
  repr :: "json \<Rightarrow> string"
  fromisoformat :: "string \<Rightarrow> 'dt option"
  strptime :: "string \<Rightarrow> string \<Rightarrow> 'dt option"
  now :: 'dt
  strftime :: "'dt \<Rightarrow> string \<Rightarrow> string"

datatype pyexn = AttributeError | TypeError

text \<open>\<open>str(v)\<close>, also what an f-string writes for \<open>{v}\<close>.\<close>

definition py_str :: "'dt pylib \<Rightarrow> json \<Rightarrow> string" where
  "py_str lib v = (case v of JStr s \<Rightarrow> s | _ \<Rightarrow> repr lib v)"

text \<open>The truth value of \<open>v\<close> in \<open>if v\<close>.\<close>

fun truthy :: "json \<Rightarrow> bool" where
  "truthy JNull = False"
| "truthy (JBool b) = b"
| "truthy (JInt i) = (i \<noteq> 0)"
| "truthy (JStr s) = (s \<noteq> [])"
| "truthy (JArr xs) = (xs \<noteq> [])"
| "truthy (JObj kvs) = (kvs \<noteq> [])"

text \<open>
  \<open>ann.get(k1, ann.get(k2, d))\<close>: the value under \<open>k1\<close> if the key is there (also when
  the value is \<open>null\<close>), else the value under \<open>k2\<close>, else \<open>d\<close>. Only a dict has \<open>get\<close>.
\<close>

fun get2 :: "json \<Rightarrow> string \<Rightarrow> string \<Rightarrow> json \<Rightarrow> pyexn + json" where
  "get2 (JObj kvs) k1 k2 d =
     Inr (case map_of kvs k1 of
            Some v \<Rightarrow> v
          | None \<Rightarrow> (case map_of kvs k2 of Some v \<Rightarrow> v | None \<Rightarrow> d))"
| "get2 _ k1 k2 d = Inl AttributeError"

text \<open>
  \<open>v[:n]\<close>: a \<open>str\<close> and a list can be sliced; \<open>None\<close>, a number or a bool cannot
  (TypeError), nor can a dict (TypeError, a KeyError from Python 3.12 on).
\<close>

fun slice_to :: "nat \<Rightarrow> json \<Rightarrow> pyexn + json" where
  "slice_to n (JStr s) = Inr (JStr (take n s))"
| "slice_to n (JArr xs) = Inr (JArr (take n xs))"
| "slice_to n _ = Inl TypeError"

section \<open>More of Python's strings\<close>

definition upper_char :: "char \<Rightarrow> char" where
  "upper_char c =
     (let n = (of_char c :: nat) in if 97 \<le> n \<and> n \<le> 122 then char_of (n - 32) else c)"

definition upper :: "string \<Rightarrow> string" where
  "upper s = map upper_char s"

definition is_alpha :: "char \<Rightarrow> bool" where
  "is_alpha c =
     (let n = (of_char c :: nat) in (65 \<le> n \<and> n \<le> 90) \<or> (97 \<le> n \<and> n \<le> 122))"

text \<open>\<open>str.title\<close>: a letter after a letter is lowered, any other letter is raised.\<close>

fun title_from :: "bool \<Rightarrow> string \<Rightarrow> string" where
  "title_from previous_is_cased [] = []"
| "title_from previous_is_cased (c # cs) =
     (if is_alpha c
        then (if previous_is_cased then lower_char c else upper_char c) # title_from True cs
      else c # title_from False cs)"

definition title :: "string \<Rightarrow> string" where
  "title s = title_from False s"

text \<open>The white space that \<open>str.strip\<close> removes, among the ASCII characters.\<close>

definition is_space :: "char \<Rightarrow> bool" where
  "is_space c = (let n = (of_char c :: nat) in (9 \<le> n \<and> n \<le> 13) \<or> (28 \<le> n \<and> n \<le> 32))"

definition strip :: "string \<Rightarrow> string" where
  "strip s = rev (dropWhile is_space (rev (dropWhile is_space s)))"

text \<open>\<open>s.split(c)\<close> for a separator of one character: never an empty list.\<close>

fun split :: "char \<Rightarrow> string \<Rightarrow> string list" where
  "split c [] = [[]]"
| "split c (x # xs) =
     (if x = c then [] # split c xs
      else (case split c xs of w # ws \<Rightarrow> (x # w) # ws | [] \<Rightarrow> [[x]]))"

fun join :: "string \<Rightarrow> string list \<Rightarrow> string" where
  "join sep [] = []"
| "join sep [x] = x"
| "join sep (x # y # ys) = x @ sep @ join sep (y # ys)"

text \<open>\<open>s.replace('Z', '+00:00')\<close>\<close>

definition replace_Z :: "string \<Rightarrow> string" where
  "replace_Z s = concat (map (\<lambda>c. if c = CHR ''Z'' then ''+00:00'' else [c]) s)"

section \<open>Highlight extractor\<close>

text \<open>
  The currency sign inside the patterns: U+20B9 in scripts:scrape_announcements.py (here in
  UTF-8), and the three characters U+201A U+00C7 U+03C0 as stored in
  scripts/scrape_announcements.py.
\<close>

definition RUPEE_ext :: string where
  "RUPEE_ext = [CHR 0xE2, CHR 0x82, CHR 0xB9]"

definition RUPEE :: string where
  "RUPEE = [CHR 0xE2, CHR 0x80, CHR 0x9A, CHR 0xC3, CHR 0x87, CHR 0xCF, CHR 0x80]"

text \<open>
  A string literal of the logic cannot hold a backslash, so the escapes of the regular
  expressions are named: \<open>re_s\<close>, \<open>re_d\<close>, \<open>re_w\<close> and \<open>re_dot\<close> are the two characters
  backslash-s, backslash-d, backslash-w and backslash-dot. The patterns below are the
  source's raw strings, piece by piece.
\<close>

definition re_s :: string where "re_s = [CHR 0x5C, CHR ''s'']"

definition re_d :: string where "re_d = [CHR 0x5C, CHR ''d'']"

definition re_w :: string where "re_w = [CHR 0x5C, CHR ''w'']"

definition re_dot :: string where "re_dot = [CHR 0x5C, CHR ''.'']"

definition PCT_PATTERN :: string where
  "PCT_PATTERN =
     concat
      [''('', re_w, ''+)'', re_s, ''+(?:increased|decreased|grew|fell|rose|dropped)'', re_s,
       ''+(?:by'', re_s, ''+)?('', re_d, ''+(?:'', re_dot, re_d, ''+)?)'', re_s, ''*%'']"

subsection \<open>\<open>extract_key_highlights\<close> of scripts/scrape_announcements.py\<close>

definition patterns :: "(string \<times> string) list" where
  "patterns =
     [(''revenue'',
       concat
        [''revenue[:'', re_s, '']+(?:rs'', re_dot, ''?|inr|'', RUPEE, '')?'', re_s, ''*(['',
         re_d, '','', re_dot, '']+)'', re_s, ''*(?:crore|cr|lakh|billion|million)?'']),
      (''profit'',
       concat
        [''(?:net'', re_s, ''+)?profit[:'', re_s, '']+(?:rs'', re_dot, ''?|inr|'', RUPEE,
         '')?'', re_s, ''*(['', re_d, '','', re_dot, '']+)'', re_s,
         ''*(?:crore|cr|lakh|billion|million)?'']),
      (''growth'',
       concat
        [''(?:growth|increase|up|rose)'', re_s, ''+(?:of'', re_s, ''+)?('', re_d, ''+(?:'',
         re_dot, re_d, ''+)?)'', re_s, ''*%'']),
      (''dividend'',
       concat
        [''dividend[:'', re_s, '']+(?:rs'', re_dot, ''?|inr|'', RUPEE, '')?'', re_s, ''*(['',
         re_d, '','', re_dot, '']+)'', re_s, ''*(?:per'', re_s, ''+share)?''])]"

definition extract_key_highlights :: "'dt pylib \<Rightarrow> string \<Rightarrow> string \<Rightarrow> string" where
  "extract_key_highlights lib text category =
     (let text_lower = lower text;
          highlights =
            concat (map (\<lambda>(metric, pattern).
                           map (\<lambda>match. upper metric @ '': '' @ match)
                               (take 2 (findall1 lib pattern text_lower True)))
                        patterns);
          pct_changes = findall2 lib PCT_PATTERN text_lower;
          highlights =
            highlights @ map (\<lambda>(metric, value). title metric @ '' change: '' @ value @ ''%'')
                             (take 3 pct_changes);
          highlights =
            (if highlights = []
               then map (\<lambda>s. take 100 (strip s))
                        (filter (\<lambda>s. length (strip s) > 20) (take 2 (split CHR ''.'' text)))
             else highlights)
      in if highlights \<noteq> [] then join '' | '' (take 4 highlights)
         else ''See PDF for details'')"

subsection \<open>\<open>extract_key_highlights\<close> of scripts:scrape_announcements.py\<close>

definition patterns_ext :: "(string \<times> string) list" where
  "patterns_ext =
     [(''revenue'',
       concat
        [''revenue[:'', re_s, '']+(?:rs'', re_dot, ''?|inr|'', RUPEE_ext, '')?'', re_s,
         ''*(['', re_d, '','', re_dot, '']+)'', re_s, ''*(?:crore|cr|lakh|billion|million)?'']),
      (''profit'',
       concat
        [''(?:net'', re_s, ''+)?profit[:'', re_s, '']+(?:rs'', re_dot, ''?|inr|'', RUPEE_ext,
         '')?'', re_s, ''*(['', re_d, '','', re_dot, '']+)'', re_s,
         ''*(?:crore|cr|lakh|billion|million)?'']),
      (''growth'',
       concat
        [''(?:growth|increase|up|rose)'', re_s, ''+(?:of'', re_s, ''+)?('', re_d, ''+(?:'',
         re_dot, re_d, ''+)?)'', re_s, ''*%'']),
      (''dividend'',
       concat
        [''dividend[:'', re_s, '']+(?:rs'', re_dot, ''?|inr|'', RUPEE_ext, '')?'', re_s,
         ''*(['', re_d, '','', re_dot, '']+)'', re_s, ''*(?:per'', re_s, ''+share)?'']),
      (''order_value'',
       concat
        [''(?:order|contract)[:'', re_s, '']+(?:worth'', re_s, ''+)?(?:rs'', re_dot,
         ''?|inr|'', RUPEE_ext, '')?'', re_s, ''*(['', re_d, '','', re_dot, '']+)'', re_s,
         ''*(?:crore|cr|lakh|billion|million)?'']),
      (''ebitda'',
       concat
        [''ebitda[:'', re_s, '']+(?:rs'', re_dot, ''?|inr|'', RUPEE_ext, '')?'', re_s,
         ''*(['', re_d, '','', re_dot, '']+)'', re_s, ''*(?:crore|cr|lakh|billion|million)?'']),
      (''margin'',
       concat
        [''margin[:'', re_s, '']+('', re_d, ''+(?:'', re_dot, re_d, ''+)?)'', re_s, ''*%'']),
      (''eps'',
       concat
        [''eps[:'', re_s, '']+(?:rs'', re_dot, ''?|inr|'', RUPEE_ext, '')?'', re_s, ''*(['',
         re_d, '','', re_dot, '']+)''])]"

text \<open>The bullet U+2022, in UTF-8.\<close>

definition BULLET :: string where
  "BULLET = [CHR 0xE2, CHR 0x80, CHR 0xA2]"

definition extract_key_highlights_ext :: "'dt pylib \<Rightarrow> string \<Rightarrow> string \<Rightarrow> string" where
  "extract_key_highlights_ext lib text category =
     (let text_lower = lower text;
          highlights =
            concat (map (\<lambda>(metric, pattern).
                           map (\<lambda>match. upper metric @ '': '' @ match)
                               (take 2 (findall1 lib pattern text_lower True)))
                        patterns_ext);
          pct_changes = findall2 lib PCT_PATTERN text_lower;
          highlights =
            highlights @ map (\<lambda>(metric, value). title metric @ '' change: '' @ value @ ''%'')
                             (take 3 pct_changes);
          highlights =
            (if highlights = []
               then map strip (filter (\<lambda>s. length (strip s) > 20) (take 3 (split CHR ''.'' text)))
             else highlights)
      in if highlights \<noteq> []
           then join [CHR 0x0A] (map (\<lambda>h. BULLET @ '' '' @ h) (take 8 highlights))
         else ''Details in PDF'')"

section \<open>Normalizer\<close>

definition BSE_PDF_BASE_URL :: string where
  "BSE_PDF_BASE_URL = ''https://www.bseindia.com/xml-data/corpfiling/AttachLive''"

text \<open>The locals that the loop body reads from a raw record.\<close>

record fields =
  f_company :: json
  f_scrip_code :: json
  f_subject :: json
  f_news_dt :: json
  f_attachment :: json

text \<open>
  An entry of \<open>processed\<close>. \<open>Company\<close> is the raw value found; \<open>Scrip_Code\<close> is a \<open>str\<close>
  in scripts/scrape_announcements.py and the raw value in scripts:scrape_announcements.py.
\<close>

record announcement =
  Company :: json
  Scrip_Code :: json
  Category :: string
  Subject :: string
  Date :: string
  Time :: string
  Key_Highlights :: string
  Investment_Implication :: string
  PDF_Link :: string

subsection \<open>Date parsing\<close>

text \<open>
  The body of the inner \<open>try\<close>, up to \<open>dt\<close>: \<open>None\<close> when it raises. A value that is not a
  \<open>str\<close> gets the clock's reading.
\<close>

definition parse_dt :: "'dt pylib \<Rightarrow> json \<Rightarrow> 'dt option" where
  "parse_dt lib news_dt =
     (case news_dt of
        JStr s \<Rightarrow>
          if sublist ''T'' s then fromisoformat lib (replace_Z s)
          else strptime lib s ''%d-%b-%Y %H:%M:%S''
      | _ \<Rightarrow> Some (now lib))"

text \<open>
  \<open>date_str\<close> and \<open>time_str\<close> of scripts/scrape_announcements.py; the \<open>None\<close> case is the
  bare \<open>except\<close>.
\<close>

definition date_time_str :: "'dt pylib \<Rightarrow> json \<Rightarrow> string \<times> string" where
  "date_time_str lib news_dt =
     (case parse_dt lib news_dt of
        Some dt \<Rightarrow> (strftime lib dt ''%d %b %Y'', strftime lib dt ''%I:%M %p'')
      | None \<Rightarrow> (if truthy news_dt then take 11 (py_str lib news_dt) else '''', ''''))"

text \<open>The same of scripts:scrape_announcements.py.\<close>

definition date_time_str_ext :: "'dt pylib \<Rightarrow> json \<Rightarrow> string \<times> string" where
  "date_time_str_ext lib news_dt =
     (case parse_dt lib news_dt of
        Some dt \<Rightarrow> (strftime lib dt ''%d %B %Y'', strftime lib dt ''%I:%M %p'')
      | None \<Rightarrow> (py_str lib news_dt, ''''))"

subsection \<open>\<open>process_announcements\<close> of scripts/scrape_announcements.py\<close>

text \<open>The five \<open>ann.get\<close> lines; \<open>scrip_code\<close> goes through \<open>str\<close>.\<close>

definition extract_fields :: "'dt pylib \<Rightarrow> json \<Rightarrow> pyexn + fields" where
  "extract_fields lib ann =
     (case get2 ann ''SLONGNAME'' ''COMPANY_NAME'' (JStr ''Unknown'') of
        Inl e \<Rightarrow> Inl e
      | Inr company \<Rightarrow>
     (case get2 ann ''SCRIP_CD'' ''SYMBOL'' (JStr '''') of
        Inl e \<Rightarrow> Inl e
      | Inr scrip_code \<Rightarrow>
     (case get2 ann ''NEWSSUB'' ''SUBJECT'' (JStr '''') of
        Inl e \<Rightarrow> Inl e
      | Inr subject \<Rightarrow>
     (case get2 ann ''NEWS_DT'' ''DATE'' (JStr '''') of
        Inl e \<Rightarrow> Inl e
      | Inr news_dt \<Rightarrow>
     (case get2 ann ''ATTACHMENTNAME'' ''ATTACHMENT'' (JStr '''') of
        Inl e \<Rightarrow> Inl e
      | Inr attachment \<Rightarrow>
          Inr \<lparr>f_company = company, f_scrip_code = JStr (py_str lib scrip_code),
               f_subject = subject, f_news_dt = news_dt, f_attachment = attachment\<rparr>)))))"

text \<open>\<open>unique_key = f"{scrip_code}_{subject[:50]}_{news_dt}"\<close>\<close>

definition unique_key :: "'dt pylib \<Rightarrow> fields \<Rightarrow> pyexn + string" where
  "unique_key lib f =
     (case slice_to 50 (f_subject f) of
        Inl e \<Rightarrow> Inl e
      | Inr subject50 \<Rightarrow>
          Inr (py_str lib (f_scrip_code f) @ ''_'' @ py_str lib subject50 @ ''_''
               @ py_str lib (f_news_dt f)))"

text \<open>
  The rest of the loop body, from the date parsing to the dict that is appended.
  \<open>categorize_announcement\<close> starts with \<open>subject + " "\<close>, a TypeError unless \<open>subject\<close> is
  a \<open>str\<close>.
\<close>

definition build_announcement :: "'dt pylib \<Rightarrow> fields \<Rightarrow> pyexn + announcement" where
  "build_announcement lib f =
     (let (date_str, time_str) = date_time_str lib (f_news_dt f);
          pdf_url =
            (if truthy (f_attachment f)
               then BSE_PDF_BASE_URL @ ''/'' @ py_str lib (f_attachment f) else '''')
      in case f_subject f of
           JStr subject \<Rightarrow>
             (let category = categorize_announcement subject '''';
                  highlights = extract_key_highlights lib subject category;
                  implication =
                    assess_investment_implication (subject @ '' '' @ highlights) category
              in Inr \<lparr>Company = f_company f, Scrip_Code = f_scrip_code f,
                      Category = category, Subject = take 200 subject, Date = date_str,
                      Time = time_str, Key_Highlights = highlights,
                      Investment_Implication = implication, PDF_Link = pdf_url\<rparr>)
         | _ \<Rightarrow> Inl TypeError)"

text \<open>
  One pass through the \<open>try\<close> block: the set \<open>seen\<close> afterwards, and whether the block
  raised, left by \<open>continue\<close> on a key already seen, or appended an entry. An exception
  leaves \<open>seen\<close> as the block had it when it raised.
\<close>

datatype outcome = Raised pyexn | Skipped | Appended announcement

definition loop_body :: "'dt pylib \<Rightarrow> string set \<Rightarrow> json \<Rightarrow> string set \<times> outcome" where
  "loop_body lib seen ann =
     (case extract_fields lib ann of
        Inl e \<Rightarrow> (seen, Raised e)
      | Inr f \<Rightarrow>
     (case unique_key lib f of
        Inl e \<Rightarrow> (seen, Raised e)
      | Inr key \<Rightarrow>
          if key \<in> seen then (seen, Skipped)
          else
            (case build_announcement lib f of
               Inl e \<Rightarrow> (insert key seen, Raised e)
             | Inr a \<Rightarrow> (insert key seen, Appended a))))"

text \<open>
  The loop, with its two locals \<open>seen\<close> and \<open>processed\<close>. The \<open>except\<close> clause prints and
  goes on to the next record.
\<close>

fun process_loop ::
  "'dt pylib \<Rightarrow> string set \<Rightarrow> announcement list \<Rightarrow> json list
     \<Rightarrow> string set \<times> announcement list" where
  "process_loop lib seen processed [] = (seen, processed)"
| "process_loop lib seen processed (ann # rest) =
     (case loop_body lib seen ann of
        (seen', Appended a) \<Rightarrow> process_loop lib seen' (processed @ [a]) rest
      | (seen', Raised e) \<Rightarrow> process_loop lib seen' processed rest
      | (seen', Skipped) \<Rightarrow> process_loop lib seen' processed rest)"

definition process_announcements :: "'dt pylib \<Rightarrow> json list \<Rightarrow> announcement list" where
  "process_announcements lib announcements_data =
     snd (process_loop lib {} [] announcements_data)"

subsection \<open>\<open>process_announcements\<close> of scripts:scrape_announcements.py\<close>

definition extract_fields_ext :: "json \<Rightarrow> pyexn + fields" where
  "extract_fields_ext ann =
     (case get2 ann ''SLONGNAME'' ''COMPANY_NAME'' (JStr ''Unknown'') of
        Inl e \<Rightarrow> Inl e
      | Inr company \<Rightarrow>
     (case get2 ann ''SCRIP_CD'' ''SYMBOL'' (JStr '''') of
        Inl e \<Rightarrow> Inl e
      | Inr scrip_code \<Rightarrow>
     (case get2 ann ''NEWSSUB'' ''SUBJECT'' (JStr '''') of
        Inl e \<Rightarrow> Inl e
      | Inr subject \<Rightarrow>
     (case get2 ann ''NEWS_DT'' ''DATE'' (JStr '''') of
        Inl e \<Rightarrow> Inl e
      | Inr news_dt \<Rightarrow>
     (case get2 ann ''ATTACHMENTNAME'' ''ATTACHMENT'' (JStr '''') of
        Inl e \<Rightarrow> Inl e
      | Inr attachment \<Rightarrow>
          Inr \<lparr>f_company = company, f_scrip_code = scrip_code,
               f_subject = subject, f_news_dt = news_dt, f_attachment = attachment\<rparr>)))))"

definition build_announcement_ext :: "'dt pylib \<Rightarrow> fields \<Rightarrow> pyexn + announcement" where
  "build_announcement_ext lib f =
     (let (date_str, time_str) = date_time_str_ext lib (f_news_dt f);
          pdf_url =
            (if truthy (f_attachment f)
               then BSE_PDF_BASE_URL @ ''/'' @ py_str lib (f_attachment f) else '''')
      in case f_subject f of
           JStr subject \<Rightarrow>
             (let category = categorize_announcement_ext subject '''';
                  highlights = extract_key_highlights_ext lib subject category;
                  implication =
                    assess_investment_implication_ext (subject @ '' '' @ highlights) category
              in Inr \<lparr>Company = f_company f, Scrip_Code = f_scrip_code f,
                      Category = category, Subject = subject, Date = date_str,
                      Time = time_str, Key_Highlights = highlights,
                      Investment_Implication = implication, PDF_Link = pdf_url\<rparr>)
         | _ \<Rightarrow> Inl TypeError)"

definition loop_body_ext :: "'dt pylib \<Rightarrow> json \<Rightarrow> outcome" where
  "loop_body_ext lib ann =
     (case extract_fields_ext ann of
        Inl e \<Rightarrow> Raised e
      | Inr f \<Rightarrow>
     (case build_announcement_ext lib f of
        Inl e \<Rightarrow> Raised e
      | Inr a \<Rightarrow> Appended a))"

fun process_loop_ext ::
  "'dt pylib \<Rightarrow> announcement list \<Rightarrow> json list \<Rightarrow> announcement list" where
  "process_loop_ext lib processed [] = processed"
| "process_loop_ext lib processed (ann # rest) =
     (case loop_body_ext lib ann of
        Appended a \<Rightarrow> process_loop_ext lib (processed @ [a]) rest
      | Raised e \<Rightarrow> process_loop_ext lib processed rest
      | Skipped \<Rightarrow> process_loop_ext lib processed rest)"

definition process_announcements_ext :: "'dt pylib \<Rightarrow> json list \<Rightarrow> announcement list" where
  "process_announcements_ext lib announcements_data =
     process_loop_ext lib [] announcements_data"

section \<open>The sort in \<open>main\<close>\<close>

text \<open>
  \<open>processed_data.sort(key=lambda x: x['Date'], reverse=True)\<close>: a stable sort on the
  date strings, compared character by character, with every comparison reversed, which is
  the stable ascending sort of the reversed list, reversed. Both scripts sort only a list
  that is not empty, and hand the sorted list to the report; \<open>None\<close> is the run without a
  report.
\<close>

definition sort_by_date :: "announcement list \<Rightarrow> announcement list" where
  "sort_by_date processed_data = rev (sort_key Date (rev processed_data))"

definition report_data :: "announcement list \<Rightarrow> announcement list option" where
  "report_data processed_data =
     (if processed_data \<noteq> [] then Some (sort_by_date processed_data) else None)"

section \<open>Notions used in the statements\<close>

text \<open>
  The deduplication key of a raw record, when the loop body gets as far as computing it,
  and the entry that the record gives when the rest of the body does not raise.
\<close>

definition record_key :: "'dt pylib \<Rightarrow> json \<Rightarrow> string option" where
  "record_key lib ann =
     (case extract_fields lib ann of
        Inl e \<Rightarrow> None
      | Inr f \<Rightarrow> (case unique_key lib f of Inl e \<Rightarrow> None | Inr key \<Rightarrow> Some key))"

definition announce :: "'dt pylib \<Rightarrow> json \<Rightarrow> announcement option" where
  "announce lib ann =
     (case extract_fields lib ann of
        Inl e \<Rightarrow> None
      | Inr f \<Rightarrow> (case build_announcement lib f of Inl e \<Rightarrow> None | Inr a \<Rightarrow> Some a))"

definition announce_ext :: "'dt pylib \<Rightarrow> json \<Rightarrow> announcement option" where
  "announce_ext lib ann =
     (case loop_body_ext lib ann of Appended a \<Rightarrow> Some a | Raised e \<Rightarrow> None | Skipped \<Rightarrow> None)"

text \<open>
  Deduplication as the specification words it: of the records that have a key, the first
  one with each key not seen before is kept, the later ones are dropped.
\<close>

fun first_occurrences :: "'dt pylib \<Rightarrow> string set \<Rightarrow> json list \<Rightarrow> json list" where
  "first_occurrences lib seen [] = []"
| "first_occurrences lib seen (ann # rest) =
     (case record_key lib ann of
        None \<Rightarrow> first_occurrences lib seen rest
      | Some key \<Rightarrow>
          if key \<in> seen then first_occurrences lib seen rest
          else ann # first_occurrences lib (insert key seen) rest)"

section \<open>A reference library\<close>

text \<open>
  An instance of the library, to evaluate the scripts on examples. It follows Python on
  the inputs it accepts: dates in the two-digit spelling of the two formats, the regular
  expressions of the scripts on ASCII text, \<open>str\<close> of \<open>None\<close>, booleans, integers, and of
  lists and dicts of those and of strings without quotes or escapes.
\<close>

subsection \<open>Numbers as text\<close>

definition digit_char :: "nat \<Rightarrow> char" where
  "digit_char d = char_of (48 + d)"

function dec :: "nat \<Rightarrow> string" where
  "dec n = (if n < 10 then [digit_char n] else dec (n div 10) @ [digit_char (n mod 10)])"
  by pat_completeness auto
termination
  by (relation "measure id") auto

definition pad2 :: "nat \<Rightarrow> string" where
  "pad2 n = [digit_char (n div 10 mod 10), digit_char (n mod 10)]"

definition digit_val :: "char \<Rightarrow> nat option" where
  "digit_val c =
     (let n = (of_char c :: nat) in if 48 \<le> n \<and> n \<le> 57 then Some (n - 48) else None)"

fun digits_val :: "nat \<Rightarrow> string \<Rightarrow> nat option" where
  "digits_val acc [] = Some acc"
| "digits_val acc (c # cs) =
     (case digit_val c of None \<Rightarrow> None | Some d \<Rightarrow> digits_val (10 * acc + d) cs)"

definition number :: "string \<Rightarrow> nat option" where
  "number s = (if s = [] then None else digits_val 0 s)"

subsection \<open>\<open>str\<close> of a value\<close>

definition quoted :: "string \<Rightarrow> string" where
  "quoted s = [CHR 0x27] @ s @ [CHR 0x27]"

fun ref_repr :: "json \<Rightarrow> string" where
  "ref_repr JNull = ''None''"
| "ref_repr (JBool b) = (if b then ''True'' else ''False'')"
| "ref_repr (JInt i) = (if i < 0 then ''-'' @ dec (nat (- i)) else dec (nat i))"
| "ref_repr (JStr s) = quoted s"
| "ref_repr (JArr xs) = ''['' @ join '', '' (map ref_repr xs) @ '']''"
| "ref_repr (JObj kvs) =
     ''{'' @ join '', '' (map (\<lambda>kv. quoted (fst kv) @ '': '' @ ref_repr (snd kv)) kvs) @ ''}''"

subsection \<open>Dates\<close>

record datetime =
  dt_year :: nat
  dt_month :: nat
  dt_day :: nat
  dt_hour :: nat
  dt_minute :: nat
  dt_second :: nat
  dt_utcoffset :: "int option"

definition MONTH_ABBR :: "string list" where
  "MONTH_ABBR = [''Jan'', ''Feb'', ''Mar'', ''Apr'', ''May'', ''Jun'',
                 ''Jul'', ''Aug'', ''Sep'', ''Oct'', ''Nov'', ''Dec'']"

definition MONTH_NAME :: "string list" where
  "MONTH_NAME = [''January'', ''February'', ''March'', ''April'', ''May'', ''June'', ''July'',
                 ''August'', ''September'', ''October'', ''November'', ''December'']"

fun index_of :: "'a \<Rightarrow> 'a list \<Rightarrow> nat option" where
  "index_of x [] = None"
| "index_of x (y # ys) = (if x = y then Some 0 else map_option Suc (index_of x ys))"

definition is_leap :: "nat \<Rightarrow> bool" where
  "is_leap y = (y mod 4 = 0 \<and> (y mod 100 \<noteq> 0 \<or> y mod 400 = 0))"

definition days_in_month :: "nat \<Rightarrow> nat \<Rightarrow> nat" where
  "days_in_month y m =
     (if m = 2 then (if is_leap y then 29 else 28)
      else if m \<in> set [4, 6, 9, 11] then 30 else 31)"

definition make_datetime ::
  "nat option \<Rightarrow> nat option \<Rightarrow> nat option \<Rightarrow> nat option \<Rightarrow> nat option \<Rightarrow> nat option
     \<Rightarrow> int option \<Rightarrow> datetime option" where
  "make_datetime y m d H M S off =
     (case (y, m, d, H, M, S) of
        (Some y, Some m, Some d, Some H, Some M, Some S) \<Rightarrow>
          if 1 \<le> y \<and> 1 \<le> m \<and> m \<le> 12 \<and> 1 \<le> d \<and> d \<le> days_in_month y m \<and>
             H < 24 \<and> M < 60 \<and> S < 60
            then Some \<lparr>dt_year = y, dt_month = m, dt_day = d, dt_hour = H, dt_minute = M,
                       dt_second = S, dt_utcoffset = off\<rparr>
          else None
      | _ \<Rightarrow> None)"

text \<open>\<open>dd-Mon-yyyy HH:MM:SS\<close>, the month in any case.\<close>

definition ref_strptime :: "string \<Rightarrow> string \<Rightarrow> datetime option" where
  "ref_strptime s format =
     (if format = ''%d-%b-%Y %H:%M:%S'' \<and> length s = 20 \<and>
         take 1 (drop 2 s) = ''-'' \<and> take 1 (drop 6 s) = ''-'' \<and> take 1 (drop 11 s) = '' '' \<and>
         take 1 (drop 14 s) = '':'' \<and> take 1 (drop 17 s) = '':''
        then make_datetime (number (take 4 (drop 7 s)))
               (map_option Suc (index_of (lower (take 3 (drop 3 s))) (map lower MONTH_ABBR)))
               (number (take 2 s)) (number (take 2 (drop 12 s))) (number (take 2 (drop 15 s)))
               (number (take 2 (drop 18 s))) None
      else None)"

text \<open>\<open>yyyy-mm-ddTHH:MM:SS\<close>, alone or followed by an offset \<open>+HH:MM\<close> or \<open>-HH:MM\<close>.\<close>

definition ref_offset :: "string \<Rightarrow> int option option" where
  "ref_offset z =
     (if z = [] then Some None
      else if length z = 6 \<and> take 1 z \<in> set [''+'', ''-''] \<and> take 1 (drop 3 z) = '':''
        then (case (number (take 2 (drop 1 z)), number (take 2 (drop 4 z))) of
                (Some h, Some m) \<Rightarrow>
                  if h < 24 \<and> m < 60
                    then Some (Some ((if take 1 z = ''-'' then - 1 else 1) * int (60 * h + m)))
                  else None
              | _ \<Rightarrow> None)
      else None)"

definition ref_fromisoformat :: "string \<Rightarrow> datetime option" where
  "ref_fromisoformat s =
     (if 19 \<le> length s \<and> take 1 (drop 4 s) = ''-'' \<and> take 1 (drop 7 s) = ''-'' \<and>
         take 1 (drop 10 s) = ''T'' \<and> take 1 (drop 13 s) = '':'' \<and> take 1 (drop 16 s) = '':''
        then (case ref_offset (drop 19 s) of
                None \<Rightarrow> None
              | Some off \<Rightarrow>
                  make_datetime (number (take 4 s)) (number (take 2 (drop 5 s)))
                    (number (take 2 (drop 8 s))) (number (take 2 (drop 11 s)))
                    (number (take 2 (drop 14 s))) (number (take 2 (drop 17 s))) off)
      else None)"

definition month_text :: "string list \<Rightarrow> nat \<Rightarrow> string" where
  "month_text names m = (if 1 \<le> m \<and> m \<le> 12 then names ! (m - 1) else '''')"

definition ref_strftime :: "datetime \<Rightarrow> string \<Rightarrow> string" where
  "ref_strftime dt format =
     (if format = ''%d %b %Y''
        then pad2 (dt_day dt) @ '' '' @ month_text MONTH_ABBR (dt_month dt) @ '' ''
             @ dec (dt_year dt)
      else if format = ''%d %B %Y''
        then pad2 (dt_day dt) @ '' '' @ month_text MONTH_NAME (dt_month dt) @ '' ''
             @ dec (dt_year dt)
      else if format = ''%I:%M %p''
        then pad2 (if dt_hour dt mod 12 = 0 then 12 else dt_hour dt mod 12) @ '':''
             @ pad2 (dt_minute dt) @ '' '' @ (if dt_hour dt < 12 then ''AM'' else ''PM'')
      else '''')"

definition ref_now :: datetime where
  "ref_now = \<lparr>dt_year = 2024, dt_month = 3, dt_day = 15, dt_hour = 9, dt_minute = 30,
              dt_second = 0, dt_utcoffset = None\<rparr>"

subsection \<open>Regular expressions\<close>

text \<open>
  The constructs the scripts' patterns are made of: literals, character classes, a class
  repeated (\<open>*\<close>, \<open>+\<close>, greedy), an optional part, alternatives, sequences and groups. A
  match is searched as Python does: alternatives from left to right, the longest
  repetition first, shorter ones on backtracking.
\<close>

datatype cc = CSpace | CDigit | CWord | CChar char | COr cc cc

fun cc_ok :: "cc \<Rightarrow> char \<Rightarrow> bool" where
  "cc_ok CSpace c = is_space c"
| "cc_ok CDigit c = (digit_val c \<noteq> None)"
| "cc_ok CWord c = (is_alpha c \<or> digit_val c \<noteq> None \<or> c = CHR ''_'')"
| "cc_ok (CChar x) c = (c = x)"
| "cc_ok (COr a b) c = (cc_ok a c \<or> cc_ok b c)"

datatype rx = Lit string | Star cc | Plus cc | Opt rx | Alt rx rx | Seq rx rx | Grp rx

text \<open>
  All the ways \<open>r\<close> matches at the start of \<open>s\<close>, the preferred one first: the groups'
  texts and what is left of \<open>s\<close>.
\<close>

fun rx_match :: "rx \<Rightarrow> string \<Rightarrow> (string list \<times> string) list" where
  "rx_match (Lit w) s = (if prefix w s then [([], drop (length w) s)] else [])"
| "rx_match (Star c) s =
     map (\<lambda>k. ([], drop k s)) (rev [0 ..< Suc (length (takeWhile (cc_ok c) s))])"
| "rx_match (Plus c) s =
     map (\<lambda>k. ([], drop k s)) (rev [1 ..< Suc (length (takeWhile (cc_ok c) s))])"
| "rx_match (Opt r) s = rx_match r s @ [([], s)]"
| "rx_match (Alt a b) s = rx_match a s @ rx_match b s"
| "rx_match (Seq a b) s =
     concat (map (\<lambda>(g1, rest). map (\<lambda>(g2, rest'). (g1 @ g2, rest')) (rx_match b rest))
                 (rx_match a s))"
| "rx_match (Grp r) s =
     map (\<lambda>(g, rest). (take (length s - length rest) s # g, rest)) (rx_match r s)"

text \<open>
  \<open>re.findall\<close>: the matches from left to right, none overlapping another; \<open>skip\<close> counts
  the characters still covered by the last match.
\<close>

fun rx_findall :: "rx \<Rightarrow> nat \<Rightarrow> string \<Rightarrow> string list list" where
  "rx_findall r skip [] = []"
| "rx_findall r skip (c # cs) =
     (if 0 < skip then rx_findall r (skip - 1) cs
      else (case rx_match r (c # cs) of
              [] \<Rightarrow> rx_findall r 0 cs
            | (g, rest) # _ \<Rightarrow> g # rx_findall r (length cs - length rest) cs))"

fun seqs :: "rx list \<Rightarrow> rx" where
  "seqs [] = Lit []"
| "seqs [r] = r"
| "seqs (r # rs) = Seq r (seqs rs)"

fun alts :: "string list \<Rightarrow> rx" where
  "alts [] = Lit []"
| "alts [w] = Lit w"
| "alts (w # ws) = Alt (Lit w) (alts ws)"

definition rx_sep :: rx where "rx_sep = Plus (COr (CChar CHR '':'') CSpace)"

definition rx_currency :: "string \<Rightarrow> rx" where
  "rx_currency rupee =
     Opt (Alt (Seq (Lit ''rs'') (Opt (Lit ''.''))) (Alt (Lit ''inr'') (Lit rupee)))"

definition rx_amount :: rx where
  "rx_amount = Grp (Plus (COr CDigit (COr (CChar CHR '','') (CChar CHR ''.''))))"

definition rx_unit :: rx where
  "rx_unit = Opt (alts [''crore'', ''cr'', ''lakh'', ''billion'', ''million''])"

definition rx_decimal :: rx where
  "rx_decimal = Grp (Seq (Plus CDigit) (Opt (Seq (Lit ''.'') (Plus CDigit))))"

definition rx_money :: "string \<Rightarrow> rx list" where
  "rx_money rupee = [rx_sep, rx_currency rupee, Star CSpace, rx_amount, Star CSpace]"

definition rx_table :: "string \<Rightarrow> (string \<times> rx) list" where
  "rx_table rupee =
     [(''revenue'', seqs (Lit ''revenue'' # rx_money rupee @ [rx_unit])),
      (''profit'',
       seqs (Opt (Seq (Lit ''net'') (Plus CSpace)) # Lit ''profit'' # rx_money rupee
             @ [rx_unit])),
      (''growth'',
       seqs [alts [''growth'', ''increase'', ''up'', ''rose''], Plus CSpace,
             Opt (Seq (Lit ''of'') (Plus CSpace)), rx_decimal, Star CSpace, Lit ''%'']),
      (''dividend'',
       seqs (Lit ''dividend'' # rx_money rupee
             @ [Opt (seqs [Lit ''per'', Plus CSpace, Lit ''share''])])),
      (''order_value'',
       seqs ([alts [''order'', ''contract''], rx_sep, Opt (Seq (Lit ''worth'') (Plus CSpace)),
              rx_currency rupee, Star CSpace, rx_amount, Star CSpace, rx_unit])),
      (''ebitda'', seqs (Lit ''ebitda'' # rx_money rupee @ [rx_unit])),
      (''margin'', seqs [Lit ''margin'', rx_sep, rx_decimal, Star CSpace, Lit ''%'']),
      (''eps'',
       seqs [Lit ''eps'', rx_sep, rx_currency rupee, Star CSpace, rx_amount])]"

definition rx_pct :: rx where
  "rx_pct =
     seqs [Grp (Plus CWord), Plus CSpace,
           alts [''increased'', ''decreased'', ''grew'', ''fell'', ''rose'', ''dropped''],
           Plus CSpace, Opt (Seq (Lit ''by'') (Plus CSpace)), rx_decimal, Star CSpace,
           Lit ''%'']"

text \<open>
  The patterns of the two scripts, each with its expression. On a text in lower case the
  flag \<open>re.IGNORECASE\<close> changes nothing.
\<close>

definition rx_of_pattern :: "string \<Rightarrow> rx option" where
  "rx_of_pattern pattern =
     (case find (\<lambda>(metric, p). p = pattern) patterns of
        Some (metric, p) \<Rightarrow> map_of (rx_table RUPEE) metric
      | None \<Rightarrow>
          (case find (\<lambda>(metric, p). p = pattern) patterns_ext of
             Some (metric, p) \<Rightarrow> map_of (rx_table RUPEE_ext) metric
           | None \<Rightarrow> None))"

definition ref_findall1 :: "string \<Rightarrow> string \<Rightarrow> bool \<Rightarrow> string list" where
  "ref_findall1 pattern text ignorecase =
     (case rx_of_pattern pattern of
        None \<Rightarrow> []
      | Some r \<Rightarrow> map (\<lambda>g. case g of g1 # _ \<Rightarrow> g1 | [] \<Rightarrow> '''') (rx_findall r 0 text))"

definition ref_findall2 :: "string \<Rightarrow> string \<Rightarrow> (string \<times> string) list" where
  "ref_findall2 pattern text =
     (if pattern = PCT_PATTERN
        then map (\<lambda>g. case g of g1 # g2 # _ \<Rightarrow> (g1, g2) | _ \<Rightarrow> ('''', ''''))
                 (rx_findall rx_pct 0 text)
      else [])"

definition ref_lib :: "datetime pylib" where
  "ref_lib =
     \<lparr>findall1 = ref_findall1, findall2 = ref_findall2, repr = ref_repr,
      fromisoformat = ref_fromisoformat, strptime = ref_strptime, now = ref_now,
      strftime = ref_strftime\<rparr>"

section \<open>Example records\<close>

text \<open>A subject of exactly 50 characters, to be continued in different ways.\<close>

definition ex_subject :: string where
  "ex_subject = ''Board Meeting Intimation for considering dividend ''"

definition ex_record :: "string \<Rightarrow> json" where
  "ex_record subject =
     JObj [(''COMPANY_NAME'', JStr ''ACME LTD''), (''SYMBOL'', JStr ''ACME''),
           (''SUBJECT'', JStr subject), (''DATE'', JStr ''2024-01-05T14:30:00''),
           (''ATTACHMENT'', JStr ''a.pdf'')]"



text \<open>A record whose subject is a JSON array, and its key.\<close>

definition ex_list_subject :: json where
  "ex_list_subject =
     JObj [(''SYMBOL'', JStr ''ACME''), (''SUBJECT'', JArr []),
           (''DATE'', JStr ''2024-01-05T14:30:00'')]"

definition ex_list_key :: string where
  "ex_list_key = ''ACME_[]_2024-01-05T14:30:00''"

text \<open>An entry with a given date string.\<close>

definition ex_entry :: "string \<Rightarrow> announcement" where
  "ex_entry date_str =
     \<lparr>Company = JStr ''ACME LTD'', Scrip_Code = JStr ''ACME'', Category = ''Others'',
      Subject = ''Update'', Date = date_str, Time = ''09:30 AM'',
      Key_Highlights = ''See PDF for details'',
      Investment_Implication = STAR @ STAR @ '' NEUTRAL'', PDF_Link = ''''\<rparr>"

section \<open>Properties of the categorizer\<close>










section \<open>Properties of the sentiment scorer\<close>

lemma assess_cases:
  "assess_investment_implication text category =
     (let p = keyword_hits POSITIVE_KEYWORDS (lower text) + category_bonus category;
          n = keyword_hits NEGATIVE_KEYWORDS (lower text)
      in if p > n + 2 then STAR @ STAR @ STAR @ '' POSITIVE''
         else if p > n then STAR @ STAR @ '' MODERATE''
         else if n > p + 2 then STAR @ '' CAUTIOUS''
         else if n > p then STAR @ STAR @ '' WATCH''
         else STAR @ STAR @ '' NEUTRAL'')"
  unfolding assess_investment_implication_def category_bonus_def Let_def
  by simp

lemma assess_ext_cases:
  "assess_investment_implication_ext text category =
     (let p = keyword_hits POSITIVE_KEYWORDS (lower text) + category_bonus category;
          n = keyword_hits NEGATIVE_KEYWORDS (lower text)
      in if p > n + 2 then STAR_ext @ STAR_ext @ STAR_ext @ '' POSITIVE''
         else if p > n then STAR_ext @ STAR_ext @ '' MODERATE POSITIVE''
         else if n > p + 2 then STAR_ext @ '' CAUTIOUS''
         else if n > p then STAR_ext @ STAR_ext @ '' WATCH''
         else STAR_ext @ STAR_ext @ '' NEUTRAL'')"
  unfolding assess_investment_implication_ext_def category_bonus_def Let_def
  by simp

text \<open>
  Claim C1, as amended. When the positive count with the category bonus exceeds the negative
  count by one or two, scripts:scrape_announcements.py returns two star markers and
  \<open>MODERATE POSITIVE\<close>, and scripts/scrape_announcements.py returns two of its star markers
  and \<open>MODERATE\<close>. Every rating either script returns is one of its five literals: three
  markers for \<open>POSITIVE\<close>, two for the moderate rating, \<open>WATCH\<close> and \<open>NEUTRAL\<close>, one for
  \<open>CAUTIOUS\<close>.
\<close>

theorem moderate_rating:
  "(keyword_hits NEGATIVE_KEYWORDS (lower text)
      < keyword_hits POSITIVE_KEYWORDS (lower text) + category_bonus category \<and>
    keyword_hits POSITIVE_KEYWORDS (lower text) + category_bonus category
      \<le> keyword_hits NEGATIVE_KEYWORDS (lower text) + 2
    \<longrightarrow> assess_investment_implication_ext text category
          = STAR_ext @ STAR_ext @ '' MODERATE POSITIVE'' \<and>
        assess_investment_implication text category = STAR @ STAR @ '' MODERATE'') \<and>
   assess_investment_implication_ext text category \<in>
     {STAR_ext @ STAR_ext @ STAR_ext @ '' POSITIVE'',
      STAR_ext @ STAR_ext @ '' MODERATE POSITIVE'',
      STAR_ext @ STAR_ext @ '' WATCH'',
      STAR_ext @ STAR_ext @ '' NEUTRAL'',
      STAR_ext @ '' CAUTIOUS''} \<and>
   assess_investment_implication text category \<in>
     {STAR @ STAR @ STAR @ '' POSITIVE'',
      STAR @ STAR @ '' MODERATE'',
      STAR @ STAR @ '' WATCH'',
      STAR @ STAR @ '' NEUTRAL'',
      STAR @ '' CAUTIOUS''}"
  unfolding assess_cases assess_ext_cases Let_def by simp

theorem moderate_rating_witness:
  "keyword_hits NEGATIVE_KEYWORDS (lower ''Record growth'')
      < keyword_hits POSITIVE_KEYWORDS (lower ''Record growth'') + category_bonus ''Others'' \<and>
    keyword_hits POSITIVE_KEYWORDS (lower ''Record growth'') + category_bonus ''Others''
      \<le> keyword_hits NEGATIVE_KEYWORDS (lower ''Record growth'') + 2 \<and>
   assess_investment_implication_ext ''Record growth'' ''Others''
          = STAR_ext @ STAR_ext @ '' MODERATE POSITIVE'' \<and>
   assess_investment_implication ''Record growth'' ''Others'' = STAR @ STAR @ '' MODERATE''"
proof -
  have h: "keyword_hits NEGATIVE_KEYWORDS (lower ''Record growth'')
      < keyword_hits POSITIVE_KEYWORDS (lower ''Record growth'') + category_bonus ''Others'' \<and>
    keyword_hits POSITIVE_KEYWORDS (lower ''Record growth'') + category_bonus ''Others''
      \<le> keyword_hits NEGATIVE_KEYWORDS (lower ''Record growth'') + 2"
    by code_simp
  from h moderate_rating [of "''Record growth''" "''Others''"] show ?thesis by blast
qed

text \<open>
  Claim C1 as stated does not hold of scripts/scrape_announcements.py: for the text
  \<open>growth\<close> in category \<open>Others\<close> the positive count is 1 and the negative count 0, and the
  rating returned reads \<open>MODERATE\<close>, not \<open>MODERATE POSITIVE\<close>.
\<close>

theorem moderate_label_counterexample:
  "keyword_hits NEGATIVE_KEYWORDS (lower ''growth'')
      < keyword_hits POSITIVE_KEYWORDS (lower ''growth'') + category_bonus ''Others'' \<and>
   keyword_hits POSITIVE_KEYWORDS (lower ''growth'') + category_bonus ''Others''
      \<le> keyword_hits NEGATIVE_KEYWORDS (lower ''growth'') + 2 \<and>
   assess_investment_implication ''growth'' ''Others'' = STAR @ STAR @ '' MODERATE'' \<and>
   \<not> sublist ''MODERATE POSITIVE'' (assess_investment_implication ''growth'' ''Others'')"
  by code_simp

text \<open>
  Claim C6. A text with exactly one positive keyword and no negative keyword, in category
  \<open>Order Win\<close>, is rated \<open>POSITIVE\<close> with three star markers by both scripts. The rating is
  \<open>POSITIVE\<close> exactly when the positive count plus the category bonus exceeds the negative
  count plus 2, where the bonus is 2 for \<open>Dividend\<close>, \<open>Order Win\<close> and \<open>Expansion\<close> and 1 for
  \<open>Fund Raising\<close>.
\<close>

theorem order_win_bonus:
  "(keyword_hits POSITIVE_KEYWORDS (lower text) = 1 \<and>
    keyword_hits NEGATIVE_KEYWORDS (lower text) = 0
    \<longrightarrow> assess_investment_implication text ''Order Win'' = STAR @ STAR @ STAR @ '' POSITIVE'' \<and>
        assess_investment_implication_ext text ''Order Win''
          = STAR_ext @ STAR_ext @ STAR_ext @ '' POSITIVE'') \<and>
   (assess_investment_implication text category = STAR @ STAR @ STAR @ '' POSITIVE''
      \<longleftrightarrow> keyword_hits POSITIVE_KEYWORDS (lower text) + category_bonus category
            > keyword_hits NEGATIVE_KEYWORDS (lower text) + 2) \<and>
   (assess_investment_implication_ext text category
        = STAR_ext @ STAR_ext @ STAR_ext @ '' POSITIVE''
      \<longleftrightarrow> keyword_hits POSITIVE_KEYWORDS (lower text) + category_bonus category
            > keyword_hits NEGATIVE_KEYWORDS (lower text) + 2) \<and>
   category_bonus ''Dividend'' = 2 \<and> category_bonus ''Order Win'' = 2 \<and>
   category_bonus ''Expansion'' = 2 \<and> category_bonus ''Fund Raising'' = 1"
  unfolding assess_cases assess_ext_cases Let_def
  by (simp add: category_bonus_def STAR_def STAR_ext_def)

theorem order_win_bonus_witness:
  "keyword_hits POSITIVE_KEYWORDS (lower ''Received new order'') = 1 \<and>
   keyword_hits NEGATIVE_KEYWORDS (lower ''Received new order'') = 0 \<and>
   assess_investment_implication ''Received new order'' ''Order Win''
     = STAR @ STAR @ STAR @ '' POSITIVE'' \<and>
   assess_investment_implication_ext ''Received new order'' ''Order Win''
     = STAR_ext @ STAR_ext @ STAR_ext @ '' POSITIVE''"
proof -
  have h: "keyword_hits POSITIVE_KEYWORDS (lower ''Received new order'') = 1 \<and>
   keyword_hits NEGATIVE_KEYWORDS (lower ''Received new order'') = 0"
    by code_simp
  from h order_win_bonus [of "''Received new order''" "''Others''"] show ?thesis by blast
qed

section \<open>The loops of the normalizer\<close>

lemma loop_body_no_key:
  "record_key lib ann = None \<Longrightarrow> \<exists>e. loop_body lib seen ann = (seen, Raised e)"
  by (auto simp: loop_body_def record_key_def split: sum.splits)

lemma loop_body_seen_key:
  "record_key lib ann = Some key \<Longrightarrow> key \<in> seen \<Longrightarrow> loop_body lib seen ann = (seen, Skipped)"
  by (auto simp: loop_body_def record_key_def split: sum.splits)

lemma loop_body_new_key:
  "record_key lib ann = Some key \<Longrightarrow> key \<notin> seen \<Longrightarrow>
   loop_body lib seen ann =
     (insert key seen,
      case announce lib ann of Some a \<Rightarrow> Appended a | None \<Rightarrow> Raised TypeError)"
  by (auto simp: loop_body_def record_key_def announce_def build_announcement_def Let_def
           split: sum.splits json.splits prod.splits)

lemma process_loop_acc:
  "process_loop lib seen (p @ q) data =
     (fst (process_loop lib seen q data), p @ snd (process_loop lib seen q data))"
proof (induction data arbitrary: seen q)
  case Nil
  then show ?case by simp
next
  case (Cons ann rest)
  obtain seen' out where b: "loop_body lib seen ann = (seen', out)" by (cases "loop_body lib seen ann")
  show ?case
  proof (cases out)
    case (Appended a)
    with b Cons.IH [of seen' "q @ [a]"] show ?thesis by simp
  next
    case (Raised e)
    with b Cons.IH [of seen' q] show ?thesis by simp
  next
    case Skipped
    with b Cons.IH [of seen' q] show ?thesis by simp
  qed
qed

lemma process_loop_append:
  "process_loop lib seen processed (xs @ ys) =
     process_loop lib (fst (process_loop lib seen processed xs))
       (snd (process_loop lib seen processed xs)) ys"
proof (induction xs arbitrary: seen processed)
  case Nil
  then show ?case by simp
next
  case (Cons ann rest)
  obtain seen' out where b: "loop_body lib seen ann = (seen', out)" by (cases "loop_body lib seen ann")
  show ?case
    using b Cons.IH by (cases out) simp_all
qed

lemma process_loop_first_occurrences:
  "snd (process_loop lib seen [] data)
     = List.map_filter (announce lib) (first_occurrences lib seen data)"
proof (induction data arbitrary: seen)
  case Nil
  then show ?case by simp
next
  case (Cons ann rest)
  show ?case
  proof (cases "record_key lib ann")
    case None
    then obtain e where "loop_body lib seen ann = (seen, Raised e)"
      using loop_body_no_key by blast
    with None Cons.IH [of seen] show ?thesis by simp
  next
    case (Some key)
    show ?thesis
    proof (cases "key \<in> seen")
      case True
      have "loop_body lib seen ann = (seen, Skipped)" by (rule loop_body_seen_key [OF Some True])
      with Some True Cons.IH [of seen] show ?thesis by simp
    next
      case False
      note b = loop_body_new_key [OF Some False]
      show ?thesis
      proof (cases "announce lib ann")
        case None
        with b Some False Cons.IH [of "insert key seen"] show ?thesis
          by simp
      next
        case (Some a)
        have "process_loop lib (insert key seen) ([a] @ []) rest
            = (fst (process_loop lib (insert key seen) [] rest),
               [a] @ snd (process_loop lib (insert key seen) [] rest))"
          by (rule process_loop_acc)
        with b Some \<open>record_key lib ann = Some key\<close> False Cons.IH [of "insert key seen"]
        show ?thesis by simp
      qed
    qed
  qed
qed

lemma process_loop_ext_acc:
  "process_loop_ext lib (p @ q) data = p @ process_loop_ext lib q data"
proof (induction data arbitrary: q)
  case Nil
  then show ?case by simp
next
  case (Cons ann rest)
  show ?case using Cons.IH [of q] Cons.IH [of "q @ [a]" for a]
    by (cases "loop_body_ext lib ann") simp_all
qed

lemma process_ext_map_filter:
  "process_announcements_ext lib data = List.map_filter (announce_ext lib) data"
proof -
  have "process_loop_ext lib [] data = List.map_filter (announce_ext lib) data"
  proof (induction data)
    case Nil
    then show ?case by simp
  next
    case (Cons ann rest)
    show ?case
    proof (cases "loop_body_ext lib ann")
      case (Appended a)
      have "process_loop_ext lib ([a] @ []) rest = [a] @ process_loop_ext lib [] rest"
        by (rule process_loop_ext_acc)
      with Appended Cons.IH show ?thesis by (simp add: announce_ext_def)
    qed (use Cons.IH in \<open>simp_all add: announce_ext_def\<close>)
  qed
  then show ?thesis by (simp add: process_announcements_ext_def)
qed

lemma first_occurrences_filter_key:
  "filter (\<lambda>r. record_key lib r = Some key) (first_occurrences lib seen data)
     = (if key \<in> seen then []
        else (case find (\<lambda>r. record_key lib r = Some key) data of None \<Rightarrow> [] | Some r \<Rightarrow> [r]))"
proof (induction data arbitrary: seen)
  case Nil
  then show ?case by simp
next
  case (Cons ann rest)
  show ?case
  proof (cases "record_key lib ann")
    case None
    with Cons.IH [of seen] show ?thesis by simp
  next
    case (Some k)
    show ?thesis
    proof (cases "k \<in> seen")
      case True
      with Some Cons.IH [of seen] show ?thesis by auto
    next
      case False
      with Some Cons.IH [of "insert k seen"] show ?thesis by auto
    qed
  qed
qed

lemma first_occurrences_insert:
  "first_occurrences lib (insert key seen) data
     = first_occurrences lib seen (filter (\<lambda>r. record_key lib r \<noteq> Some key) data)"
proof (induction data arbitrary: seen)
  case Nil
  then show ?case by simp
next
  case (Cons ann rest)
  show ?case
  proof (cases "record_key lib ann")
    case None
    with Cons.IH [of seen] show ?thesis by simp
  next
    case (Some k)
    show ?thesis
    proof (cases "k = key")
      case True
      with Some Cons.IH [of seen] show ?thesis by simp
    next
      case False
      have "insert k (insert key seen) = insert key (insert k seen)" by auto
      with False Some Cons.IH [of seen] Cons.IH [of "insert k seen"] show ?thesis by simp
    qed
  qed
qed

lemma process_loop_output:
  "snd (process_loop lib seen processed data)
     = processed @ List.map_filter (announce lib) (first_occurrences lib seen data)"
  using process_loop_acc [of lib seen processed "[]" data]
  by (simp add: process_loop_first_occurrences)



lemma process_announcements_output:
  "process_announcements lib data
     = List.map_filter (announce lib) (first_occurrences lib {} data)"
  by (simp add: process_announcements_def process_loop_first_occurrences)

section \<open>Properties of the highlight extractor\<close>







section \<open>Properties of the date parsing\<close>

lemma replace_Z_append: "replace_Z (s @ t) = replace_Z s @ replace_Z t"
  by (simp add: replace_Z_def)

lemma replace_Z_suffixes:
  "replace_Z (s @ ''Z'') = replace_Z s @ ''+00:00''"
  "replace_Z (s @ ''+00:00'') = replace_Z s @ ''+00:00''"
  by (simp_all add: replace_Z_def)

lemma sublist_T_append: "sublist ''T'' s \<Longrightarrow> sublist ''T'' (s @ t)"
  unfolding sublist_def by (metis append.assoc)

text \<open>
  Claim C8. For a date-time string \<open>s\<close> with the \<open>T\<close> separator, the field \<open>s\<close> followed by
  \<open>Z\<close> and the field \<open>s\<close> followed by \<open>+00:00\<close> are parsed to the same value, the ISO parser's
  result on the same text; when that parse succeeds, the date and time display strings are
  the same too, in both scripts.
\<close>

theorem iso_Z_suffix:
  "sublist ''T'' s \<longrightarrow>
     parse_dt lib (JStr (s @ ''Z'')) = fromisoformat lib (replace_Z s @ ''+00:00'') \<and>
     parse_dt lib (JStr (s @ ''+00:00'')) = fromisoformat lib (replace_Z s @ ''+00:00'') \<and>
     (parse_dt lib (JStr (s @ ''Z'')) \<noteq> None \<longrightarrow>
        date_time_str lib (JStr (s @ ''Z'')) = date_time_str lib (JStr (s @ ''+00:00'')) \<and>
        date_time_str_ext lib (JStr (s @ ''Z'')) = date_time_str_ext lib (JStr (s @ ''+00:00'')))"
proof
  assume T: "sublist ''T'' s"
  have z: "parse_dt lib (JStr (s @ ''Z'')) = fromisoformat lib (replace_Z s @ ''+00:00'')"
    using sublist_T_append [OF T, of "''Z''"]
    by (simp add: parse_dt_def replace_Z_suffixes)
  have p: "parse_dt lib (JStr (s @ ''+00:00'')) = fromisoformat lib (replace_Z s @ ''+00:00'')"
    using sublist_T_append [OF T, of "''+00:00''"]
    by (simp add: parse_dt_def replace_Z_suffixes)
  have d: "date_time_str lib (JStr (s @ ''Z'')) = date_time_str lib (JStr (s @ ''+00:00'')) \<and>
      date_time_str_ext lib (JStr (s @ ''Z'')) = date_time_str_ext lib (JStr (s @ ''+00:00''))"
    if "parse_dt lib (JStr (s @ ''Z'')) \<noteq> None"
  proof -
    from that obtain dt where "parse_dt lib (JStr (s @ ''Z'')) = Some dt" by blast
    with z p have "parse_dt lib (JStr (s @ ''Z'')) = Some dt"
      "parse_dt lib (JStr (s @ ''+00:00'')) = Some dt" by simp_all
    then show ?thesis by (simp add: date_time_str_def date_time_str_ext_def)
  qed
  from z p d show "parse_dt lib (JStr (s @ ''Z'')) = fromisoformat lib (replace_Z s @ ''+00:00'') \<and>
     parse_dt lib (JStr (s @ ''+00:00'')) = fromisoformat lib (replace_Z s @ ''+00:00'') \<and>
     (parse_dt lib (JStr (s @ ''Z'')) \<noteq> None \<longrightarrow>
        date_time_str lib (JStr (s @ ''Z'')) = date_time_str lib (JStr (s @ ''+00:00'')) \<and>
        date_time_str_ext lib (JStr (s @ ''Z'')) = date_time_str_ext lib (JStr (s @ ''+00:00'')))"
    by blast
qed

theorem iso_Z_suffix_witness:
  "sublist ''T'' ''2024-01-05T14:30:00'' \<and>
   parse_dt ref_lib (JStr (''2024-01-05T14:30:00'' @ ''Z'')) \<noteq> None \<and>
   parse_dt ref_lib (JStr (''2024-01-05T14:30:00'' @ ''Z''))
     = parse_dt ref_lib (JStr (''2024-01-05T14:30:00'' @ ''+00:00'')) \<and>
   date_time_str ref_lib (JStr (''2024-01-05T14:30:00'' @ ''Z''))
     = date_time_str ref_lib (JStr (''2024-01-05T14:30:00'' @ ''+00:00'')) \<and>
   date_time_str_ext ref_lib (JStr (''2024-01-05T14:30:00'' @ ''Z''))
     = date_time_str_ext ref_lib (JStr (''2024-01-05T14:30:00'' @ ''+00:00'')) \<and>
   date_time_str ref_lib (JStr (''2024-01-05T14:30:00'' @ ''Z'')) = (''05 Jan 2024'', ''02:30 PM'')"
proof -
  let ?s = "''2024-01-05T14:30:00''"
  have h1: "sublist ''T'' ?s" by code_simp
  have h2: "parse_dt ref_lib (JStr (?s @ ''Z'')) \<noteq> None" by code_simp
  have h3: "date_time_str ref_lib (JStr (?s @ ''Z'')) = (''05 Jan 2024'', ''02:30 PM'')"
    by code_simp
  from h1 h2 h3 iso_Z_suffix [of ?s ref_lib] show ?thesis by simp
qed

text \<open>
  Claim C4, as amended. A string with a \<open>T\<close> goes to the ISO-8601 parser (with \<open>Z\<close> rewritten
  as \<open>+00:00\<close>), any other string to the parser of the fixed format, and the display strings
  are those of the parsed value. A value that is not a string gets the current time. For a
  string on which parsing fails the date display is the raw field (its first 11 characters
  in scripts/scrape_announcements.py, all of it in scripts:scrape_announcements.py) and the
  time display is empty.
\<close>

theorem date_fallback:
  "(sublist ''T'' s \<and> fromisoformat lib (replace_Z s) = Some dt \<longrightarrow>
      date_time_str lib (JStr s) = (strftime lib dt ''%d %b %Y'', strftime lib dt ''%I:%M %p'') \<and>
      date_time_str_ext lib (JStr s)
        = (strftime lib dt ''%d %B %Y'', strftime lib dt ''%I:%M %p'')) \<and>
   (\<not> sublist ''T'' s \<and> strptime lib s ''%d-%b-%Y %H:%M:%S'' = Some dt \<longrightarrow>
      date_time_str lib (JStr s) = (strftime lib dt ''%d %b %Y'', strftime lib dt ''%I:%M %p'') \<and>
      date_time_str_ext lib (JStr s)
        = (strftime lib dt ''%d %B %Y'', strftime lib dt ''%I:%M %p'')) \<and>
   (v \<notin> range JStr \<longrightarrow>
      date_time_str lib v
        = (strftime lib (now lib) ''%d %b %Y'', strftime lib (now lib) ''%I:%M %p'') \<and>
      date_time_str_ext lib v
        = (strftime lib (now lib) ''%d %B %Y'', strftime lib (now lib) ''%I:%M %p'')) \<and>
   (parse_dt lib (JStr s) = None \<longrightarrow>
      date_time_str lib (JStr s) = (take 11 s, '''') \<and>
      date_time_str_ext lib (JStr s) = (s, ''''))"
proof -
  have a: "sublist ''T'' s \<and> fromisoformat lib (replace_Z s) = Some dt \<longrightarrow>
      date_time_str lib (JStr s) = (strftime lib dt ''%d %b %Y'', strftime lib dt ''%I:%M %p'') \<and>
      date_time_str_ext lib (JStr s)
        = (strftime lib dt ''%d %B %Y'', strftime lib dt ''%I:%M %p'')"
    by (simp add: date_time_str_def date_time_str_ext_def parse_dt_def)
  have b: "\<not> sublist ''T'' s \<and> strptime lib s ''%d-%b-%Y %H:%M:%S'' = Some dt \<longrightarrow>
      date_time_str lib (JStr s) = (strftime lib dt ''%d %b %Y'', strftime lib dt ''%I:%M %p'') \<and>
      date_time_str_ext lib (JStr s)
        = (strftime lib dt ''%d %B %Y'', strftime lib dt ''%I:%M %p'')"
    by (simp add: date_time_str_def date_time_str_ext_def parse_dt_def)
  have c: "v \<notin> range JStr \<longrightarrow>
      date_time_str lib v
        = (strftime lib (now lib) ''%d %b %Y'', strftime lib (now lib) ''%I:%M %p'') \<and>
      date_time_str_ext lib v
        = (strftime lib (now lib) ''%d %B %Y'', strftime lib (now lib) ''%I:%M %p'')"
    by (cases v) (simp_all add: date_time_str_def date_time_str_ext_def parse_dt_def)
  have d: "parse_dt lib (JStr s) = None \<longrightarrow>
      date_time_str lib (JStr s) = (take 11 s, '''') \<and>
      date_time_str_ext lib (JStr s) = (s, '''')"
    by (simp add: date_time_str_def date_time_str_ext_def py_str_def)
  from a b c d show ?thesis by blast
qed

theorem date_fallback_witness:
  "sublist ''T'' ''2024-01-05T14:30:00Z'' \<and>
   fromisoformat ref_lib (replace_Z ''2024-01-05T14:30:00Z'')
     = Some \<lparr>dt_year = 2024, dt_month = 1, dt_day = 5, dt_hour = 14, dt_minute = 30,
              dt_second = 0, dt_utcoffset = Some 0\<rparr> \<and>
   date_time_str ref_lib (JStr ''2024-01-05T14:30:00Z'') = (''05 Jan 2024'', ''02:30 PM'') \<and>
   \<not> sublist ''T'' ''05-Jan-2024 14:30:00'' \<and>
   strptime ref_lib ''05-Jan-2024 14:30:00'' ''%d-%b-%Y %H:%M:%S''
     = Some \<lparr>dt_year = 2024, dt_month = 1, dt_day = 5, dt_hour = 14, dt_minute = 30,
              dt_second = 0, dt_utcoffset = None\<rparr> \<and>
   date_time_str_ext ref_lib (JStr ''05-Jan-2024 14:30:00'') = (''05 January 2024'', ''02:30 PM'') \<and>
   JInt 20240105 \<notin> range JStr \<and>
   date_time_str ref_lib (JInt 20240105) = (''15 Mar 2024'', ''09:30 AM'') \<and>
   parse_dt ref_lib (JStr ''not a date at all'') = None \<and>
   date_time_str ref_lib (JStr ''not a date at all'') = (''not a date '', '''') \<and>
   date_time_str_ext ref_lib (JStr ''not a date at all'') = (''not a date at all'', '''')"
proof -
  let ?iso = "''2024-01-05T14:30:00Z''"
  let ?bse = "''05-Jan-2024 14:30:00''"
  let ?bad = "''not a date at all''"
  let ?d1 = "\<lparr>dt_year = 2024, dt_month = 1, dt_day = 5, dt_hour = 14, dt_minute = 30,
              dt_second = 0, dt_utcoffset = Some 0\<rparr>"
  let ?d2 = "\<lparr>dt_year = 2024, dt_month = 1, dt_day = 5, dt_hour = 14, dt_minute = 30,
              dt_second = 0, dt_utcoffset = None\<rparr>"
  have h1: "sublist ''T'' ?iso \<and> fromisoformat ref_lib (replace_Z ?iso) = Some ?d1"
    by code_simp
  have h2: "\<not> sublist ''T'' ?bse \<and> strptime ref_lib ?bse ''%d-%b-%Y %H:%M:%S'' = Some ?d2"
    by code_simp
  have h3: "JInt 20240105 \<notin> range JStr" by auto
  have h4: "parse_dt ref_lib (JStr ?bad) = None" by code_simp
  have e1: "(strftime ref_lib ?d1 ''%d %b %Y'', strftime ref_lib ?d1 ''%I:%M %p'')
      = (''05 Jan 2024'', ''02:30 PM'')" by code_simp
  have e2: "(strftime ref_lib ?d2 ''%d %B %Y'', strftime ref_lib ?d2 ''%I:%M %p'')
      = (''05 January 2024'', ''02:30 PM'')" by code_simp
  have e3: "(strftime ref_lib (now ref_lib) ''%d %b %Y'', strftime ref_lib (now ref_lib) ''%I:%M %p'')
      = (''15 Mar 2024'', ''09:30 AM'')" by code_simp
  have e4: "take 11 ?bad = ''not a date ''" by simp
  note t1 = date_fallback [of ?iso ref_lib ?d1 "JInt 20240105"]
  note t2 = date_fallback [of ?bse ref_lib ?d2 "JInt 20240105"]
  note t3 = date_fallback [of ?bad ref_lib ?d2 "JInt 20240105"]
  from t1 h1 have "date_time_str ref_lib (JStr ?iso)
      = (strftime ref_lib ?d1 ''%d %b %Y'', strftime ref_lib ?d1 ''%I:%M %p'')" by blast
  with e1 have r1: "date_time_str ref_lib (JStr ?iso) = (''05 Jan 2024'', ''02:30 PM'')"
    by (simp only:)
  from t2 h2 have "date_time_str_ext ref_lib (JStr ?bse)
      = (strftime ref_lib ?d2 ''%d %B %Y'', strftime ref_lib ?d2 ''%I:%M %p'')" by blast
  with e2 have r2: "date_time_str_ext ref_lib (JStr ?bse) = (''05 January 2024'', ''02:30 PM'')"
    by (simp only:)
  from t1 h3 have "date_time_str ref_lib (JInt 20240105)
      = (strftime ref_lib (now ref_lib) ''%d %b %Y'', strftime ref_lib (now ref_lib) ''%I:%M %p'')"
    by blast
  with e3 have r3: "date_time_str ref_lib (JInt 20240105) = (''15 Mar 2024'', ''09:30 AM'')"
    by (simp only:)
  from t3 h4 have "date_time_str ref_lib (JStr ?bad) = (take 11 ?bad, '''') \<and>
      date_time_str_ext ref_lib (JStr ?bad) = (?bad, '''')" by blast
  with e4 have r4: "date_time_str ref_lib (JStr ?bad) = (''not a date '', '''') \<and>
      date_time_str_ext ref_lib (JStr ?bad) = (?bad, '''')"
    by (simp only:)
  from h1 h2 h3 h4 r1 r2 r3 r4 show ?thesis by blast
qed

text \<open>
  Claim C4 as stated does not hold: the field \<open>not a date at all\<close> fails to parse, and its
  date display is taken from the field itself, not from the current time.
\<close>

theorem date_fallback_counterexample:
  "parse_dt ref_lib (JStr ''not a date at all'') = None \<and>
   date_time_str ref_lib (JStr ''not a date at all'') = (''not a date '', '''') \<and>
   date_time_str_ext ref_lib (JStr ''not a date at all'') = (''not a date at all'', '''') \<and>
   (strftime ref_lib (now ref_lib) ''%d %b %Y'', strftime ref_lib (now ref_lib) ''%I:%M %p'')
     = (''15 Mar 2024'', ''09:30 AM'') \<and>
   date_time_str ref_lib (JStr ''not a date at all'')
     \<noteq> (strftime ref_lib (now ref_lib) ''%d %b %Y'', strftime ref_lib (now ref_lib) ''%I:%M %p'') \<and>
   date_time_str_ext ref_lib (JStr ''not a date at all'')
     \<noteq> (strftime ref_lib (now ref_lib) ''%d %B %Y'', strftime ref_lib (now ref_lib) ''%I:%M %p'')"
  by code_simp

section \<open>Properties of the deduplication\<close>




section \<open>Exceptions in the loop body\<close>

lemma length_map_filter: "length (List.map_filter f xs) \<le> length xs"
  by (induction xs) (auto split: option.splits)

lemma length_first_occurrences: "length (first_occurrences lib seen data) \<le> length data"
proof (induction data arbitrary: seen)
  case Nil
  then show ?case by simp
next
  case (Cons ann rest)
  show ?case
    using Cons.IH [of seen] Cons.IH [of "insert key seen" for key]
    by (auto split: option.splits simp: le_SucI)
qed

lemma map_filter_append:
  "List.map_filter f (xs @ ys) = List.map_filter f xs @ List.map_filter f ys"
  by (simp add: List.map_filter_def)

lemma not_dict_raises:
  "ann \<notin> range JObj \<Longrightarrow> extract_fields lib ann = Inl AttributeError"
  by (cases ann) (simp_all add: extract_fields_def)

lemma not_dict_raises_ext:
  "ann \<notin> range JObj \<Longrightarrow> extract_fields_ext ann = Inl AttributeError"
  by (cases ann) (simp_all add: extract_fields_ext_def)

text \<open>
  Claim C5. \<open>process_announcements\<close> returns a list for every list of raw records, with at
  most one entry per record. In scripts:scrape_announcements.py the entries are those of
  the records whose body does not raise, in order. When the body raises on a record, in
  either script, the entries made so far stay, the record adds none, and the loop goes on
  with the records after it. The body raises an AttributeError on a record that is not a
  dict (field extraction) and a TypeError on a subject that is not a \<open>str\<close> (slicing,
  categorization); date parsing has its own handler and does not raise out of the body.
\<close>

theorem record_exceptions_isolated:
  "process_announcements_ext lib data = List.map_filter (announce_ext lib) data \<and>
   length (process_announcements_ext lib data) \<le> length data \<and>
   length (process_announcements lib data) \<le> length data \<and>
   (loop_body_ext lib ann = Raised e \<longrightarrow>
      process_announcements_ext lib (xs @ ann # ys)
        = process_announcements_ext lib xs @ process_announcements_ext lib ys) \<and>
   (loop_body lib (fst (process_loop lib {} [] xs)) ann = (seen', Raised e) \<longrightarrow>
      process_announcements lib (xs @ ann # ys)
        = process_announcements lib xs @ snd (process_loop lib seen' [] ys)) \<and>
   (ann \<notin> range JObj \<longrightarrow>
      loop_body_ext lib ann = Raised AttributeError \<and>
      loop_body lib seen ann = (seen, Raised AttributeError)) \<and>
   (extract_fields_ext ann = Inr f \<and> f_subject f \<notin> range JStr \<longrightarrow>
      loop_body_ext lib ann = Raised TypeError) \<and>
   (extract_fields lib ann = Inr f \<and> f_subject f \<notin> range JStr \<longrightarrow>
      snd (loop_body lib seen ann) = Raised TypeError \<or> snd (loop_body lib seen ann) = Skipped)"
proof -
  have a: "process_announcements_ext lib data = List.map_filter (announce_ext lib) data"
    by (rule process_ext_map_filter)
  have b: "length (process_announcements_ext lib data) \<le> length data"
    unfolding process_ext_map_filter by (rule length_map_filter)
  have c: "length (process_announcements lib data) \<le> length data"
    unfolding process_announcements_output
    using length_map_filter [of "announce lib" "first_occurrences lib {} data"]
      length_first_occurrences [of lib "{}" data] by linarith
  have d: "loop_body_ext lib ann = Raised e \<longrightarrow>
      process_announcements_ext lib (xs @ ann # ys)
        = process_announcements_ext lib xs @ process_announcements_ext lib ys"
    unfolding process_ext_map_filter by (simp add: map_filter_append announce_ext_def)
  have e: "loop_body lib (fst (process_loop lib {} [] xs)) ann = (seen', Raised e) \<longrightarrow>
      process_announcements lib (xs @ ann # ys)
        = process_announcements lib xs @ snd (process_loop lib seen' [] ys)"
  proof
    assume h: "loop_body lib (fst (process_loop lib {} [] xs)) ann = (seen', Raised e)"
    let ?S = "fst (process_loop lib {} [] xs)"
    let ?P = "snd (process_loop lib {} [] xs)"
    have "process_loop lib {} [] (xs @ ann # ys) = process_loop lib ?S ?P (ann # ys)"
      by (rule process_loop_append)
    also from h have "\<dots> = process_loop lib seen' ?P ys" by simp
    also have "\<dots> = (fst (process_loop lib seen' [] ys), ?P @ snd (process_loop lib seen' [] ys))"
      using process_loop_acc [of lib seen' ?P "[]" ys] by simp
    finally show "process_announcements lib (xs @ ann # ys)
        = process_announcements lib xs @ snd (process_loop lib seen' [] ys)"
      by (simp add: process_announcements_def)
  qed
  have f: "ann \<notin> range JObj \<longrightarrow>
      loop_body_ext lib ann = Raised AttributeError \<and>
      loop_body lib seen ann = (seen, Raised AttributeError)"
  proof
    assume "ann \<notin> range JObj"
    from not_dict_raises [OF this, of lib] not_dict_raises_ext [OF this]
    show "loop_body_ext lib ann = Raised AttributeError \<and>
      loop_body lib seen ann = (seen, Raised AttributeError)"
      by (simp add: loop_body_def loop_body_ext_def)
  qed
  have g: "extract_fields_ext ann = Inr f \<and> f_subject f \<notin> range JStr \<longrightarrow>
      loop_body_ext lib ann = Raised TypeError"
    by (cases "f_subject f")
       (auto simp: loop_body_ext_def build_announcement_ext_def Let_def split: prod.splits)
  have h: "extract_fields lib ann = Inr f \<and> f_subject f \<notin> range JStr \<longrightarrow>
      snd (loop_body lib seen ann) = Raised TypeError \<or> snd (loop_body lib seen ann) = Skipped"
    by (cases "f_subject f")
       (auto simp: loop_body_def unique_key_def build_announcement_def Let_def
             split: prod.splits sum.splits)
  from a b c d e f g h show ?thesis by blast
qed

theorem record_exceptions_isolated_witness:
  "loop_body_ext ref_lib JNull = Raised AttributeError \<and>
   loop_body ref_lib (fst (process_loop ref_lib {} [] [ex_list_subject])) JNull
     = ({ex_list_key}, Raised AttributeError) \<and>
   JNull \<notin> range JObj \<and>
   extract_fields_ext ex_list_subject
     = Inr \<lparr>f_company = JStr ''Unknown'', f_scrip_code = JStr ''ACME'', f_subject = JArr [],
            f_news_dt = JStr ''2024-01-05T14:30:00'', f_attachment = JStr ''''\<rparr> \<and>
   extract_fields ref_lib ex_list_subject
     = Inr \<lparr>f_company = JStr ''Unknown'', f_scrip_code = JStr ''ACME'', f_subject = JArr [],
            f_news_dt = JStr ''2024-01-05T14:30:00'', f_attachment = JStr ''''\<rparr> \<and>
   JArr [] \<notin> range JStr \<and>
   loop_body_ext ref_lib ex_list_subject = Raised TypeError \<and>
   process_announcements_ext ref_lib ([ex_record ''AGM''] @ JNull # [ex_record ''EGM''])
     = process_announcements_ext ref_lib [ex_record ''AGM'']
       @ process_announcements_ext ref_lib [ex_record ''EGM''] \<and>
   process_announcements ref_lib ([ex_list_subject] @ JNull # [ex_record ''EGM''])
     = process_announcements ref_lib [ex_list_subject]
       @ snd (process_loop ref_lib {ex_list_key} [] [ex_record ''EGM''])"
proof -
  let ?f = "\<lparr>f_company = JStr ''Unknown'', f_scrip_code = JStr ''ACME'', f_subject = JArr [],
            f_news_dt = JStr ''2024-01-05T14:30:00'', f_attachment = JStr ''''\<rparr>"
  have h1: "loop_body_ext ref_lib JNull = Raised AttributeError" by code_simp
  have h2: "loop_body ref_lib (fst (process_loop ref_lib {} [] [ex_list_subject])) JNull
     = ({ex_list_key}, Raised AttributeError)" by code_simp
  have h3: "JNull \<notin> range JObj" "JArr [] \<notin> range JStr" by auto
  have h4: "extract_fields_ext ex_list_subject = Inr ?f" by code_simp
  have h5: "extract_fields ref_lib ex_list_subject = Inr ?f" by code_simp
  have h6: "f_subject ?f \<notin> range JStr" by auto
  note t1 = record_exceptions_isolated [of ref_lib "[]" JNull AttributeError
      "[ex_record ''AGM'']" "[ex_record ''EGM'']" "{ex_list_key}" "{}" ?f]
  note t2 = record_exceptions_isolated [of ref_lib "[]" JNull AttributeError
      "[ex_list_subject]" "[ex_record ''EGM'']" "{ex_list_key}" "{}" ?f]
  note t3 = record_exceptions_isolated [of ref_lib "[]" ex_list_subject AttributeError
      "[]" "[]" "{}" "{}" ?f]
  from t1 h1 have r1: "process_announcements_ext ref_lib ([ex_record ''AGM''] @ JNull # [ex_record ''EGM''])
     = process_announcements_ext ref_lib [ex_record ''AGM'']
       @ process_announcements_ext ref_lib [ex_record ''EGM'']" by blast
  from t2 h2 have r2: "process_announcements ref_lib ([ex_list_subject] @ JNull # [ex_record ''EGM''])
     = process_announcements ref_lib [ex_list_subject]
       @ snd (process_loop ref_lib {ex_list_key} [] [ex_record ''EGM''])" by blast
  from t3 h4 h6 have r3: "loop_body_ext ref_lib ex_list_subject = Raised TypeError" by blast
  from h1 h2 h3 h4 h5 r1 r2 r3 show ?thesis by blast
qed

section \<open>A failed record and its key\<close>

text \<open>
  Claim C10, on scripts/scrape_announcements.py. A record whose key is new and whose
  processing then raises has its key in \<open>seen\<close> all the same: the body leaves \<open>seen\<close> with
  the key added, and the exception is the TypeError of the steps after the key. The loop
  goes on as if every later record with that key were absent from the input, and no entry
  is made from any record with that key.
\<close>

theorem failed_record_consumes_key:
  "record_key lib ann = Some key \<and> key \<notin> seen \<and> announce lib ann = None \<longrightarrow>
     loop_body lib seen ann = (insert key seen, Raised TypeError) \<and>
     process_loop lib seen processed (ann # rest)
       = process_loop lib (insert key seen) processed rest \<and>
     snd (process_loop lib seen processed (ann # rest))
       = snd (process_loop lib seen processed
                (filter (\<lambda>r. record_key lib r \<noteq> Some key) rest)) \<and>
     List.map_filter (announce lib)
         (filter (\<lambda>r. record_key lib r = Some key) (first_occurrences lib seen (ann # rest)))
       = [] \<and>
     snd (process_loop lib seen processed (ann # rest))
       = processed @ List.map_filter (announce lib) (first_occurrences lib seen (ann # rest))"
proof
  assume h: "record_key lib ann = Some key \<and> key \<notin> seen \<and> announce lib ann = None"
  then have b: "loop_body lib seen ann = (insert key seen, Raised TypeError)"
    using loop_body_new_key [of lib ann key seen] by simp
  then have s: "process_loop lib seen processed (ann # rest)
       = process_loop lib (insert key seen) processed rest" by simp
  have "snd (process_loop lib (insert key seen) processed rest)
      = snd (process_loop lib seen processed (filter (\<lambda>r. record_key lib r \<noteq> Some key) rest))"
    by (simp add: process_loop_output first_occurrences_insert)
  with s have f: "snd (process_loop lib seen processed (ann # rest))
       = snd (process_loop lib seen processed
                (filter (\<lambda>r. record_key lib r \<noteq> Some key) rest))" by simp
  from h have "filter (\<lambda>r. record_key lib r = Some key) (first_occurrences lib seen (ann # rest))
      = [ann]"
    by (simp add: first_occurrences_filter_key)
  with h have n: "List.map_filter (announce lib)
         (filter (\<lambda>r. record_key lib r = Some key) (first_occurrences lib seen (ann # rest)))
       = []" by simp
  note o = process_loop_output [of lib seen processed "ann # rest"]
  from b s f n o show "loop_body lib seen ann = (insert key seen, Raised TypeError) \<and>
     process_loop lib seen processed (ann # rest)
       = process_loop lib (insert key seen) processed rest \<and>
     snd (process_loop lib seen processed (ann # rest))
       = snd (process_loop lib seen processed
                (filter (\<lambda>r. record_key lib r \<noteq> Some key) rest)) \<and>
     List.map_filter (announce lib)
         (filter (\<lambda>r. record_key lib r = Some key) (first_occurrences lib seen (ann # rest)))
       = [] \<and>
     snd (process_loop lib seen processed (ann # rest))
       = processed @ List.map_filter (announce lib) (first_occurrences lib seen (ann # rest))"
    by blast
qed

theorem failed_record_consumes_key_witness:
  "record_key ref_lib ex_list_subject = Some ex_list_key \<and> ex_list_key \<notin> {} \<and>
   announce ref_lib ex_list_subject = None \<and>
   loop_body ref_lib {} ex_list_subject = (insert ex_list_key {}, Raised TypeError) \<and>
   filter (\<lambda>r. record_key ref_lib r \<noteq> Some ex_list_key)
       [ex_list_subject, ex_record ex_subject]
     = [ex_record ex_subject] \<and>
   snd (process_loop ref_lib {} [] [ex_list_subject, ex_list_subject, ex_record ex_subject])
     = snd (process_loop ref_lib {} [] [ex_record ex_subject])"
proof -
  have h: "record_key ref_lib ex_list_subject = Some ex_list_key \<and> ex_list_key \<notin> {} \<and>
      announce ref_lib ex_list_subject = None"
    by code_simp
  have f: "filter (\<lambda>r. record_key ref_lib r \<noteq> Some ex_list_key)
       [ex_list_subject, ex_record ex_subject] = [ex_record ex_subject]"
    by code_simp
  note t = failed_record_consumes_key [of ref_lib ex_list_subject ex_list_key "{}" "[]"
      "[ex_list_subject, ex_record ex_subject]"]
  from t h have c: "loop_body ref_lib {} ex_list_subject = (insert ex_list_key {}, Raised TypeError) \<and>
      snd (process_loop ref_lib {} [] (ex_list_subject # [ex_list_subject, ex_record ex_subject]))
        = snd (process_loop ref_lib {} []
            (filter (\<lambda>r. record_key ref_lib r \<noteq> Some ex_list_key)
               [ex_list_subject, ex_record ex_subject]))"
    by blast
  with f have "snd (process_loop ref_lib {} [] [ex_list_subject, ex_list_subject, ex_record ex_subject])
     = snd (process_loop ref_lib {} [] [ex_record ex_subject])" by (simp only:)
  with h f c show ?thesis by blast
qed

section \<open>Properties of the sort\<close>

lemma sort_by_date_mset: "mset (sort_by_date xs) = mset xs"
  by (simp add: sort_by_date_def)

lemma sort_by_date_sorted: "sorted (rev (map Date (sort_by_date xs)))"
  unfolding sort_by_date_def rev_map rev_rev_ident
  by (simp only: sorted_sort_key flip: rev_map)

lemma sorted_wrt_rev_ge:
  "sorted (rev (map f ys)) \<Longrightarrow> sorted_wrt (\<lambda>a b. f b \<le> f a) ys"
  by (simp add: sorted_wrt_rev sorted_wrt_map)

text \<open>
  Claim C9. A list of entries that is not empty reaches the report sorted by the \<open>Date\<close>
  string in descending order of the strings: the same entries, each \<open>Date\<close> at least the
  next one, the first entry with the greatest \<open>Date\<close> of all. The strings are compared
  character by character, not as dates.
\<close>

theorem report_sorted_descending:
  "(processed \<noteq> [] \<longrightarrow>
      (\<exists>ys. report_data processed = Some ys \<and> ys \<noteq> [] \<and> mset ys = mset processed \<and>
        sorted_wrt (\<lambda>a b. Date b \<le> Date a) ys \<and>
        (\<forall>i. Suc i < length ys \<longrightarrow> Date (ys ! Suc i) \<le> Date (ys ! i)) \<and>
        (\<forall>a \<in> set processed. Date a \<le> Date (hd ys)))) \<and>
   (processed = [] \<longrightarrow> report_data processed = None)"
proof -
  let ?ys = "sort_by_date processed"
  have m: "mset ?ys = mset processed" by (rule sort_by_date_mset)
  have s: "sorted_wrt (\<lambda>a b. Date b \<le> Date a) ?ys"
    by (rule sorted_wrt_rev_ge [OF sort_by_date_sorted])
  have adj: "\<forall>i. Suc i < length ?ys \<longrightarrow> Date (?ys ! Suc i) \<le> Date (?ys ! i)"
  proof (intro allI impI)
    fix i assume "Suc i < length ?ys"
    with s show "Date (?ys ! Suc i) \<le> Date (?ys ! i)"
      using sorted_wrt_nth_less [of "\<lambda>a b. Date b \<le> Date a" ?ys i "Suc i"] by simp
  qed
  have sets: "set ?ys = set processed" using m by (rule mset_eq_setD)
  have top: "\<forall>a \<in> set processed. Date a \<le> Date (hd ?ys)"
  proof
    fix a assume "a \<in> set processed"
    with sets have a: "a \<in> set ?ys" by simp
    then obtain y rest where yr: "?ys = y # rest" by (cases ?ys) auto
    from s a show "Date a \<le> Date (hd ?ys)" unfolding yr by auto
  qed
  have ne': "?ys \<noteq> []" if "processed \<noteq> []" using that sets by auto
  have some: "report_data processed = Some ?ys" if "processed \<noteq> []"
    using that by (simp add: report_data_def)
  have none: "processed = [] \<longrightarrow> report_data processed = None"
    by (simp add: report_data_def)
  from m s adj top ne' some none show ?thesis by blast
qed

theorem report_sorted_descending_witness:
  "[ex_entry ''15 Mar 2024'', ex_entry ''31 Jan 2024'', ex_entry ''02 Feb 2024''] \<noteq> [] \<and>
   report_data [ex_entry ''15 Mar 2024'', ex_entry ''31 Jan 2024'', ex_entry ''02 Feb 2024'']
     = Some [ex_entry ''31 Jan 2024'', ex_entry ''15 Mar 2024'', ex_entry ''02 Feb 2024''] \<and>
   sorted_wrt (\<lambda>a b. Date b \<le> Date a)
     [ex_entry ''31 Jan 2024'', ex_entry ''15 Mar 2024'', ex_entry ''02 Feb 2024''] \<and>
   mset [ex_entry ''31 Jan 2024'', ex_entry ''15 Mar 2024'', ex_entry ''02 Feb 2024'']
     = mset [ex_entry ''15 Mar 2024'', ex_entry ''31 Jan 2024'', ex_entry ''02 Feb 2024'']"
proof -
  let ?xs = "[ex_entry ''15 Mar 2024'', ex_entry ''31 Jan 2024'', ex_entry ''02 Feb 2024'']"
  let ?ys = "[ex_entry ''31 Jan 2024'', ex_entry ''15 Mar 2024'', ex_entry ''02 Feb 2024'']"
  have h: "?xs \<noteq> []" by simp
  have e: "report_data ?xs = Some ?ys" by code_simp
  from report_sorted_descending [of ?xs] h
  obtain ys where ys: "report_data ?xs = Some ys" "mset ys = mset ?xs"
      "sorted_wrt (\<lambda>a b. Date b \<le> Date a) ys"
    by blast
  from ys(1) e have "ys = ?ys" by simp
  with ys h e show ?thesis by simp
qed

end
